theory Spec2Isabelle
  imports Main "HOL-Library.Sublist" "HOL-Library.AList"
begin

section \<open>Python values and exceptions\<close>

text \<open>
  The configuration (\<^verbatim>\<open>yaml.load\<close>), the provisioner's state file (\<^verbatim>\<open>json.load\<close>) and
  the output of \<^verbatim>\<open>kubectl version --output json\<close> are dynamically typed Python objects.
  A dictionary is an association list read with \<open>map_of\<close>; its keys are strings.
\<close>

datatype pyval =
    PNone
  | PBool bool
  | PInt int
  | PStr string
  | PList "pyval list"
  | PDict "(string \<times> pyval) list"

text \<open>
  The exceptions that matter to the control flow. \<open>IOError\<close> stands for the whole
  \<^verbatim>\<open>OSError\<close> family and carries its message; \<open>OtherError\<close> is any other subclass of
  \<^verbatim>\<open>Exception\<close> raised by a library (schema validation, template engine, JSON decoder).
  \<open>Abort\<close> is \<^verbatim>\<open>click.exceptions.Abort\<close>, a \<^verbatim>\<open>RuntimeError\<close>.
  \<open>KeyboardInterrupt\<close> is the one exception here that is not a subclass of \<^verbatim>\<open>Exception\<close>.
\<close>

datatype exn =
    IOError string
  | YAMLError string
  | CalledProcessError "pyval list" int
  | KeyError pyval
  | TypeError
  | IndexError
  | OtherError string
  | Abort
  | KeyboardInterrupt

fun is_Exception :: "exn \<Rightarrow> bool" where
  "is_Exception KeyboardInterrupt = False"
| "is_Exception _ = True"

fun is_IOError :: "exn \<Rightarrow> bool" where
  "is_IOError (IOError _) = True"
| "is_IOError _ = False"

fun is_YAMLError :: "exn \<Rightarrow> bool" where
  "is_YAMLError (YAMLError _) = True"
| "is_YAMLError _ = False"

subsection \<open>Subscripting, membership, item assignment\<close>

text \<open>\<^verbatim>\<open>obj[key]\<close> with a string key.\<close>

fun getitem :: "pyval \<Rightarrow> string \<Rightarrow> exn + pyval" where
  "getitem (PDict kvs) k =
     (case map_of kvs k of None \<Rightarrow> Inl (KeyError (PStr k)) | Some v \<Rightarrow> Inr v)"
| "getitem _ k = Inl TypeError"

text \<open>\<^verbatim>\<open>obj[0]\<close>. A dictionary with string keys has no key \<open>0\<close>.\<close>

fun getitem0 :: "pyval \<Rightarrow> exn + pyval" where
  "getitem0 (PList xs) = (case xs of [] \<Rightarrow> Inl IndexError | x # _ \<Rightarrow> Inr x)"
| "getitem0 (PStr cs) = (case cs of [] \<Rightarrow> Inl IndexError | c # _ \<Rightarrow> Inr (PStr [c]))"
| "getitem0 (PDict kvs) = Inl (KeyError (PInt 0))"
| "getitem0 _ = Inl TypeError"

text \<open>
  \<^verbatim>\<open>key in obj\<close> with a string key: key test on a dictionary, element test on a list,
  substring test on a string, \<^verbatim>\<open>TypeError\<close> on anything else.
\<close>

fun py_in :: "string \<Rightarrow> pyval \<Rightarrow> exn + bool" where
  "py_in k (PDict kvs) = Inr (k \<in> set (map fst kvs))"
| "py_in k (PList xs) = Inr (PStr k \<in> set xs)"
| "py_in k (PStr cs) = Inr (sublist k cs)"
| "py_in k _ = Inl TypeError"

text \<open>\<^verbatim>\<open>obj[key] = v\<close> with a string key; a new key goes to the end of the dictionary.\<close>

fun setitem :: "pyval \<Rightarrow> string \<Rightarrow> pyval \<Rightarrow> exn + pyval" where
  "setitem (PDict kvs) k v = Inr (PDict (AList.update k v kvs))"
| "setitem _ k v = Inl TypeError"

text \<open>\<^verbatim>\<open>"literal" + obj\<close>: concatenation with anything but a string raises.\<close>

fun str_plus :: "string \<Rightarrow> pyval \<Rightarrow> exn + string" where
  "str_plus a (PStr b) = Inr (a @ b)"
| "str_plus a _ = Inl TypeError"

text \<open>Truth value of an object, as \<^verbatim>\<open>if obj:\<close> takes it.\<close>

fun truthy :: "pyval \<Rightarrow> bool" where
  "truthy PNone = False"
| "truthy (PBool b) = b"
| "truthy (PInt n) = (n \<noteq> 0)"
| "truthy (PStr cs) = (cs \<noteq> [])"
| "truthy (PList xs) = (xs \<noteq> [])"
| "truthy (PDict kvs) = (kvs \<noteq> [])"

text \<open>
  \<^verbatim>\<open>for x in obj\<close>: the elements of a list, the keys of a dictionary, the characters of
  a string; anything else is not iterable.
\<close>

fun py_iter :: "pyval \<Rightarrow> exn + pyval list" where
  "py_iter (PList xs) = Inr xs"
| "py_iter (PDict kvs) = Inr (map (\<lambda>kv. PStr (fst kv)) kvs)"
| "py_iter (PStr cs) = Inr (map (\<lambda>c. PStr [c]) cs)"
| "py_iter _ = Inl TypeError"

section \<open>The world outside the process\<close>

text \<open>
  The program is glue around external tools, files and the terminal. Everything it asks
  of them is a field of \<open>world\<close>; interactions that can change over time take the number
  of interactions made so far. Time is counted in microsecond ticks of a clock that never
  runs backwards: \<open>elapsed w n\<close> is the time the \<open>n\<close>-th interaction takes beyond what
  it was asked to take.
\<close>

datatype proc =
    Returned int string   \<comment> \<open>exit status and captured standard output\<close>
  | LaunchFailed exn      \<comment> \<open>the child could not be started, or the wait was interrupted\<close>

record world =
  py_str :: "pyval \<Rightarrow> string"
  exc_str :: "exn \<Rightarrow> string"
  load_values :: "string \<Rightarrow> exn + pyval"
  load_schema :: "exn + pyval"
  schema_validate :: "pyval \<Rightarrow> pyval \<Rightarrow> exn option"
  isfile :: "pyval \<Rightarrow> exn + bool"
  isdir :: "pyval \<Rightarrow> exn + bool"
  subprocess :: "nat \<Rightarrow> pyval list \<Rightarrow> proc"
  elapsed :: "nat \<Rightarrow> nat"
  get_template :: "nat \<Rightarrow> pyval \<Rightarrow> exn option"
  render :: "nat \<Rightarrow> pyval \<Rightarrow> pyval \<Rightarrow> exn + string"
  open_write :: "nat \<Rightarrow> string \<Rightarrow> exn option"
  load_json_file :: "nat \<Rightarrow> string \<Rightarrow> exn + pyval"
  json_loads :: "string \<Rightarrow> exn + pyval"
  confirm_answer :: "nat \<Rightarrow> string \<Rightarrow> bool option"

text \<open>\<^verbatim>\<open>'{}'.format(obj)\<close>: a string is inserted as it is, anything else through \<^verbatim>\<open>str\<close>.\<close>

fun fmt :: "world \<Rightarrow> pyval \<Rightarrow> string" where
  "fmt w (PStr s) = s"
| "fmt w v = py_str w v"

text \<open>\<^verbatim>\<open>str(e)\<close>: the message of an \<open>IOError\<close>, the library's text for the others.\<close>

fun str_exn :: "world \<Rightarrow> exn \<Rightarrow> string" where
  "str_exn w (IOError m) = m"
| "str_exn w e = exc_str w e"

section \<open>Process state, observable events, outcomes\<close>

datatype event =
    Exec "pyval list"          \<comment> \<open>a child process started with this argument vector\<close>
  | Prompt string              \<comment> \<open>a confirmation question put to the user\<close>
  | Stdout string
  | Stderr string
  | Sleep nat                  \<comment> \<open>\<^verbatim>\<open>time.sleep\<close>, in seconds\<close>
  | Render pyval               \<comment> \<open>a template, named by its path, rendered\<close>
  | OpenWrite string           \<comment> \<open>a file opened for writing (created or truncated)\<close>
  | WriteText string string    \<comment> \<open>text written to a file\<close>
  | ReadFile string

record state =
  now :: int
  steps :: nat
  trace :: "event list"
  terraform_bin :: pyval
  kops_bin :: pyval
  helm_bin :: pyval
  kubectl_bin :: pyval
  cluster_config :: pyval

text \<open>
  How a piece of code ends: it returns a value, an exception propagates out of it, or
  \<^verbatim>\<open>sys.exit(n)\<close> was called (\<^verbatim>\<open>SystemExit\<close>, which \<^verbatim>\<open>except Exception\<close> does not catch).
\<close>

datatype 'a result = Return 'a | Raise exn | SysExit int

type_synonym 'a prog = "state \<Rightarrow> 'a result \<times> state"

definition return :: "'a \<Rightarrow> 'a prog" where
  "return a s = (Return a, s)"

definition raise :: "exn \<Rightarrow> 'a prog" where
  "raise e s = (Raise e, s)"

definition sys_exit :: "int \<Rightarrow> 'a prog" where
  "sys_exit n s = (SysExit n, s)"

definition and_then :: "'a prog \<Rightarrow> ('a \<Rightarrow> 'b prog) \<Rightarrow> 'b prog" where
  "and_then m f s =
     (case m s of
        (Return a, s') \<Rightarrow> f a s'
      | (Raise e, s') \<Rightarrow> (Raise e, s')
      | (SysExit n, s') \<Rightarrow> (SysExit n, s'))"

definition seq :: "'a prog \<Rightarrow> 'b prog \<Rightarrow> 'b prog" where
  "seq m k = and_then m (\<lambda>_. k)"

definition lift :: "exn + 'a \<Rightarrow> 'a prog" where
  "lift r s = (case r of Inl e \<Rightarrow> (Raise e, s) | Inr a \<Rightarrow> (Return a, s))"

text \<open>\<^verbatim>\<open>try: m except Exception as e: h(e)\<close>\<close>

definition try_except :: "'a prog \<Rightarrow> (exn \<Rightarrow> 'a prog) \<Rightarrow> 'a prog" where
  "try_except m h s =
     (case m s of
        (Raise e, s') \<Rightarrow> if is_Exception e then h e s' else (Raise e, s')
      | (r, s') \<Rightarrow> (r, s'))"

text \<open>\<^verbatim>\<open>try: m except: h\<close>, the bare clause that catches everything.\<close>

definition try_bare :: "'a prog \<Rightarrow> 'a prog \<Rightarrow> 'a prog" where
  "try_bare m h s =
     (case m s of
        (Return a, s') \<Rightarrow> (Return a, s')
      | (_, s') \<Rightarrow> h s')"

definition emit :: "event \<Rightarrow> unit prog" where
  "emit ev s = (Return (), s\<lparr>trace := trace s @ [ev]\<rparr>)"

definition tick :: "state \<Rightarrow> nat \<Rightarrow> state" where
  "tick s d = s\<lparr>steps := Suc (steps s), now := now s + int d\<rparr>"

definition second :: nat where
  "second = 1000000"

text \<open>\<^verbatim>\<open>print(a, b, file=sys.stderr)\<close> and \<^verbatim>\<open>print(a)\<close>.\<close>

definition print_err :: "string \<Rightarrow> unit prog" where
  "print_err msg = emit (Stderr msg)"

definition print_out :: "string \<Rightarrow> unit prog" where
  "print_out msg = emit (Stdout msg)"

text \<open>\<^verbatim>\<open>time.sleep(n)\<close> suspends for at least \<open>n\<close> seconds.\<close>

definition sleep :: "world \<Rightarrow> nat \<Rightarrow> unit prog" where
  "sleep w n s =
     (Return (), (tick s (n * second + elapsed w (steps s)))\<lparr>trace := trace s @ [Sleep n]\<rparr>)"

text \<open>
  \<^verbatim>\<open>subprocess.check_output(argv)\<close>: start the child, wait for it, return its output;
  a non-zero exit status raises \<^verbatim>\<open>CalledProcessError\<close>. \<^verbatim>\<open>check_call\<close> is the same
  without the output.
\<close>

definition check_output :: "world \<Rightarrow> pyval list \<Rightarrow> string prog" where
  "check_output w argv s =
     (let s' = (tick s (elapsed w (steps s)))\<lparr>trace := trace s @ [Exec argv]\<rparr>
      in case subprocess w (steps s) argv of
           Returned rc out \<Rightarrow>
             if rc = 0 then (Return out, s') else (Raise (CalledProcessError argv rc), s')
         | LaunchFailed e \<Rightarrow> (Raise e, s'))"

definition check_call :: "world \<Rightarrow> pyval list \<Rightarrow> unit prog" where
  "check_call w argv = and_then (check_output w argv) (\<lambda>_. return ())"

text \<open>
  \<^verbatim>\<open>click.confirm(text, abort=a)\<close>: the answer; \<^verbatim>\<open>Abort\<close> when the input ends or is
  interrupted, and when the answer is no and \<open>a\<close> is set.
\<close>

definition click_confirm :: "world \<Rightarrow> string \<Rightarrow> bool \<Rightarrow> bool prog" where
  "click_confirm w text abort s =
     (let s' = (tick s 0)\<lparr>trace := trace s @ [Prompt text]\<rparr>
      in case confirm_answer w (steps s) text of
           None \<Rightarrow> (Raise Abort, s')
         | Some yes \<Rightarrow> if \<not> yes \<and> abort then (Raise Abort, s') else (Return yes, s'))"

definition gets :: "(state \<Rightarrow> 'a) \<Rightarrow> 'a prog" where
  "gets f s = (Return (f s), s)"

text \<open>\<^verbatim>\<open>try: m except IOError as e: h1(e) except yaml.YAMLError as e: h2(e)\<close>\<close>

definition try_except2 ::
  "'a prog \<Rightarrow> (exn \<Rightarrow> 'a prog) \<Rightarrow> (exn \<Rightarrow> 'a prog) \<Rightarrow> 'a prog" where
  "try_except2 m h1 h2 s =
     (case m s of
        (Raise e, s') \<Rightarrow>
          if is_IOError e then h1 e s' else if is_YAMLError e then h2 e s' else (Raise e, s')
      | (r, s') \<Rightarrow> (r, s'))"

text \<open>\<^verbatim>\<open>for x in xs: body(x)\<close>\<close>

fun for_each :: "('a \<Rightarrow> unit prog) \<Rightarrow> 'a list \<Rightarrow> unit prog" where
  "for_each body [] = return ()"
| "for_each body (x # xs) = seq (body x) (for_each body xs)"

text \<open>Templates and files.\<close>

definition env_get_template :: "world \<Rightarrow> pyval \<Rightarrow> unit prog" where
  "env_get_template w tpl s =
     (case get_template w (steps s) tpl of
        None \<Rightarrow> (Return (), tick s 0)
      | Some e \<Rightarrow> (Raise e, tick s 0))"

definition template_render :: "world \<Rightarrow> pyval \<Rightarrow> pyval \<Rightarrow> string prog" where
  "template_render w tpl vals s =
     (let s' = (tick s 0)\<lparr>trace := trace s @ [Render tpl]\<rparr>
      in case render w (steps s) tpl vals of
           Inl e \<Rightarrow> (Raise e, s')
         | Inr txt \<Rightarrow> (Return txt, s'))"

definition open_for_write :: "world \<Rightarrow> string \<Rightarrow> unit prog" where
  "open_for_write w path s =
     (let s' = (tick s 0)\<lparr>trace := trace s @ [OpenWrite path]\<rparr>
      in case open_write w (steps s) path of
           None \<Rightarrow> (Return (), s')
         | Some e \<Rightarrow> (Raise e, s'))"

definition file_write :: "string \<Rightarrow> string \<Rightarrow> unit prog" where
  "file_write path txt = emit (WriteText path txt)"

definition json_load_file :: "world \<Rightarrow> string \<Rightarrow> pyval prog" where
  "json_load_file w path s =
     (let s' = (tick s 0)\<lparr>trace := trace s @ [ReadFile path]\<rparr>
      in case load_json_file w (steps s) path of
           Inl e \<Rightarrow> (Raise e, s')
         | Inr v \<Rightarrow> (Return v, s'))"

section \<open>The program\<close>

subsection \<open>Configuration and templates\<close>

definition get_config :: "world \<Rightarrow> string \<Rightarrow> pyval prog" where
  "get_config w config_path = lift (load_values w config_path)"

definition generate_terraform_config ::
  "world \<Rightarrow> pyval \<Rightarrow> pyval \<Rightarrow> pyval \<Rightarrow> string prog" where
  "generate_terraform_config w template_path output_path cfg =
     seq (env_get_template w template_path)
    (and_then (template_render w template_path cfg) (\<lambda>terraform_config.
     let terraform_config_path = fmt w output_path @ ''/networking.tf''
     in seq (open_for_write w terraform_config_path)
       (seq (file_write terraform_config_path terraform_config)
       (return terraform_config_path))))"

text \<open>
  The dictionary object \<^verbatim>\<open>cluster_config\<close> is shared by the command flows and
  \<open>generate_kops_config\<close>, which assigns to its items; the object lives in the state.
  A statement that computes the new dictionary from the old one, or raises before it
  assigns, is run by \<open>update_cluster_config\<close>.
\<close>

definition update_cluster_config :: "(pyval \<Rightarrow> exn + pyval) \<Rightarrow> unit prog" where
  "update_cluster_config stmt s =
     (case stmt (cluster_config s) of
        Inl e \<Rightarrow> (Raise e, s)
      | Inr cfg \<Rightarrow> (Return (), s\<lparr>cluster_config := cfg\<rparr>))"

text \<open>\<^verbatim>\<open>cluster_config[key]\<close>\<close>

definition cluster_config_item :: "string \<Rightarrow> pyval prog" where
  "cluster_config_item k = and_then (gets cluster_config) (\<lambda>cfg. lift (getitem cfg k))"

text \<open>Evaluation of an expression whose parts can raise: the first exception wins.\<close>

definition on_value :: "exn + 'a \<Rightarrow> ('a \<Rightarrow> exn + 'b) \<Rightarrow> exn + 'b" where
  "on_value r f = (case r of Inl e \<Rightarrow> Inl e | Inr a \<Rightarrow> f a)"

text \<open>\<^verbatim>\<open>tf_resources[key]['primary']['id']\<close>\<close>

definition resource_id :: "pyval \<Rightarrow> string \<Rightarrow> exn + pyval" where
  "resource_id tf_resources key =
     on_value (getitem tf_resources key) (\<lambda>entry.
     on_value (getitem entry ''primary'') (\<lambda>primary.
     getitem primary ''id''))"

text \<open>
  \<^verbatim>\<open>if field not in cluster_config: cluster_config[field] = tf_resources[key]['primary']['id']\<close>,
  where the expression for \<open>key\<close> is evaluated only when the field is absent.
\<close>

definition fill_from_state ::
  "string \<Rightarrow> pyval \<Rightarrow> (pyval \<Rightarrow> exn + string) \<Rightarrow> pyval \<Rightarrow> exn + pyval" where
  "fill_from_state field tf_resources key_expr cfg =
     on_value (py_in field cfg) (\<lambda>present.
     if \<not> present then
       on_value (key_expr cfg) (\<lambda>key.
       on_value (resource_id tf_resources key) (\<lambda>v.
       setitem cfg field v))
     else Inr cfg)"

text \<open>The body of the \<^verbatim>\<open>with open(terraform_state_path, 'r')\<close> block of \<open>generate_kops_config\<close>.\<close>

definition enrich_from_state :: "world \<Rightarrow> string \<Rightarrow> unit prog" where
  "enrich_from_state w terraform_state_path =
     and_then (json_load_file w terraform_state_path) (\<lambda>tf_state.
     and_then (lift (getitem tf_state ''modules'')) (\<lambda>modules.
     and_then (lift (getitem0 modules)) (\<lambda>module0.
     and_then (lift (getitem module0 ''resources'')) (\<lambda>tf_resources.
     and_then (cluster_config_item ''AWSRegion'') (\<lambda>aws_region.
     and_then (cluster_config_item ''AWSAZ1'') (\<lambda>aws_az1.
     let region = fmt w aws_region @ fmt w aws_az1
     in seq (update_cluster_config (fill_from_state ''VPCID'' tf_resources
               (\<lambda>cfg. on_value (getitem cfg ''ShortName'') (str_plus ''aws_vpc.''))))
       (seq (update_cluster_config (fill_from_state ''PublicNATGatewayID'' tf_resources
               (\<lambda>cfg. Inr (''aws_nat_gateway.public-'' @ region))))
       (seq (update_cluster_config (fill_from_state ''NodeSubnetID'' tf_resources
               (\<lambda>cfg. Inr (''aws_subnet.nodes-'' @ region))))
            (update_cluster_config (fill_from_state ''PublicSubnetID'' tf_resources
               (\<lambda>cfg. Inr (''aws_subnet.public-'' @ region))))))))))))"

definition generate_kops_config ::
  "world \<Rightarrow> pyval \<Rightarrow> string \<Rightarrow> pyval \<Rightarrow> string prog" where
  "generate_kops_config w kops_template_path terraform_state_path output_dir =
     seq (enrich_from_state w terraform_state_path)
    (seq (env_get_template w kops_template_path)
    (let kops_config_path = fmt w output_dir @ ''/kops.config''
     in seq (open_for_write w kops_config_path)
       (and_then (gets cluster_config) (\<lambda>cfg.
        and_then (template_render w kops_template_path cfg) (\<lambda>rendered.
        seq (file_write kops_config_path rendered)
            (return kops_config_path))))))"

subsection \<open>Drivers of the external tools\<close>

definition terraform_apply :: "world \<Rightarrow> pyval \<Rightarrow> string \<Rightarrow> unit prog" where
  "terraform_apply w terraform_config_dir terraform_state_path =
     and_then (gets terraform_bin) (\<lambda>bin.
     check_call w [bin, PStr ''apply'', PStr (''-state='' @ terraform_state_path),
                   terraform_config_dir])"

definition terraform_destroy :: "world \<Rightarrow> pyval \<Rightarrow> unit prog" where
  "terraform_destroy w terraform_config_dir =
     and_then (gets terraform_bin) (\<lambda>bin.
     check_call w [bin, PStr ''destroy'', PStr ''-force'', terraform_config_dir])"

definition kops_add_cluster :: "world \<Rightarrow> string \<Rightarrow> pyval \<Rightarrow> unit prog" where
  "kops_add_cluster w kops_config_path state_path =
     and_then (gets kops_bin) (\<lambda>bin.
     check_call w [bin, PStr ''create'', PStr ''-f'', PStr kops_config_path,
                   PStr ''--state'', state_path])"

definition kops_add_ssh_key :: "world \<Rightarrow> pyval \<Rightarrow> pyval \<Rightarrow> pyval \<Rightarrow> unit prog" where
  "kops_add_ssh_key w cluster_name ssh_public_key_path state_path =
     and_then (gets kops_bin) (\<lambda>bin.
     check_call w [bin, PStr ''create'', PStr ''secret'', PStr ''--name'', cluster_name,
                   PStr ''sshpublickey'', PStr ''admin'', PStr ''-i'', ssh_public_key_path,
                   PStr ''--state'', state_path])"

definition kops_update_cluster :: "world \<Rightarrow> pyval \<Rightarrow> pyval \<Rightarrow> unit prog" where
  "kops_update_cluster w cluster_name state_path =
     and_then (gets kops_bin) (\<lambda>bin.
     check_call w [bin, PStr ''update'', PStr ''cluster'', PStr ''--name'', cluster_name,
                   PStr ''--state'', state_path, PStr ''--yes''])"

definition kops_replace_cluster :: "world \<Rightarrow> string \<Rightarrow> pyval \<Rightarrow> unit prog" where
  "kops_replace_cluster w kops_config_path state_path =
     and_then (gets kops_bin) (\<lambda>bin.
     check_call w [bin, PStr ''replace'', PStr ''cluster'', PStr ''-f'', PStr kops_config_path,
                   PStr ''--state'', state_path])"

definition kops_rolling_update :: "world \<Rightarrow> pyval \<Rightarrow> pyval \<Rightarrow> unit prog" where
  "kops_rolling_update w cluster_name state_path =
     and_then (gets kops_bin) (\<lambda>bin.
     check_call w [bin, PStr ''rolling-update'', PStr ''cluster'', PStr ''--name'',
                   cluster_name, PStr ''--state'', state_path, PStr ''--yes''])"

definition kops_destroy_cluster :: "world \<Rightarrow> pyval \<Rightarrow> pyval \<Rightarrow> unit prog" where
  "kops_destroy_cluster w cluster_name state_path =
     and_then (gets kops_bin) (\<lambda>bin.
     check_call w [bin, PStr ''delete'', PStr ''cluster'', cluster_name,
                   PStr ''--state'', state_path, PStr ''--yes''])"

subsection \<open>Validation and binary resolution\<close>

text \<open>\<^verbatim>\<open>config[a][b]\<close>\<close>

definition item2 :: "pyval \<Rightarrow> string \<Rightarrow> string \<Rightarrow> pyval prog" where
  "item2 obj a b = and_then (lift (getitem obj a)) (\<lambda>inner. lift (getitem inner b))"

text \<open>\<^verbatim>\<open>b in config[a]\<close>\<close>

definition in_item :: "string \<Rightarrow> pyval \<Rightarrow> string \<Rightarrow> bool prog" where
  "in_item b obj a = and_then (lift (getitem obj a)) (\<lambda>inner. lift (py_in b inner))"

definition validate_file_exists :: "world \<Rightarrow> pyval \<Rightarrow> string \<Rightarrow> unit prog" where
  "validate_file_exists w path context =
     and_then (lift (isfile w path)) (\<lambda>found.
     if \<not> found then raise (IOError (context @ '' not found at '' @ fmt w path))
     else return ())"

definition validate_config :: "world \<Rightarrow> pyval \<Rightarrow> unit prog" where
  "validate_config w config =
     and_then (try_except (lift (load_schema w))
                 (\<lambda>e. raise (IOError (''Failed to load config values schema file: ''
                                        @ str_exn w e)))) (\<lambda>values_schema.
     seq (case schema_validate w config values_schema of
            None \<Rightarrow> return () | Some e \<Rightarrow> raise e)
    (seq (and_then (item2 config ''paths'' ''sshPublicKeyPath'') (\<lambda>p.
          validate_file_exists w p ''SSH Public Key''))
    (seq (and_then (item2 config ''paths'' ''terraformTemplatePath'') (\<lambda>p.
          validate_file_exists w p ''Terraform Template''))
    (seq (and_then (item2 config ''paths'' ''kopsTemplatePath'') (\<lambda>p.
          validate_file_exists w p ''Kops Template''))
    (seq (and_then (item2 config ''paths'' ''outputDir'') (\<lambda>d.
          and_then (lift (isdir w d)) (\<lambda>found.
          if \<not> found then
            raise (IOError (''output directory '' @ [CHR 0x27] @ fmt w d @ [CHR 0x27]
                            @ '' does not exist''))
          else return ())))
    (seq (and_then (in_item ''terraform'' config ''paths'') (\<lambda>overridden.
          if overridden then
            and_then (item2 config ''paths'' ''terraform'') (\<lambda>p.
            validate_file_exists w p ''terraform binary'')
          else return ()))
         (and_then (in_item ''kops'' config ''paths'') (\<lambda>overridden.
          if overridden then
            and_then (item2 config ''paths'' ''kops'') (\<lambda>p.
            validate_file_exists w p ''kops binary'')
          else return ()))))))))"

text \<open>
  \<^verbatim>\<open>try: check_output(argv) except Exception as e: raise IOError(msg + str(e)) from e\<close>
\<close>

definition probe_tool :: "world \<Rightarrow> pyval list \<Rightarrow> string \<Rightarrow> unit prog" where
  "probe_tool w argv msg =
     try_except (and_then (check_output w argv) (\<lambda>_. return ()))
       (\<lambda>e. raise (IOError (msg @ str_exn w e)))"

definition set_binary_paths :: "world \<Rightarrow> pyval \<Rightarrow> unit prog" where
  "set_binary_paths w config =
     seq (and_then (in_item ''terraform'' config ''paths'') (\<lambda>overridden.
          if overridden then
            and_then (item2 config ''paths'' ''terraform'') (\<lambda>p s.
            (Return (), s\<lparr>terraform_bin := p\<rparr>))
          else return ()))
    (seq (and_then (gets terraform_bin) (\<lambda>bin.
          probe_tool w [bin, PStr ''--version''] ''terraform executable not valid: ''))
    (seq (and_then (in_item ''kops'' config ''paths'') (\<lambda>overridden.
          if overridden then
            and_then (item2 config ''paths'' ''kops'') (\<lambda>p s.
            (Return (), s\<lparr>kops_bin := p\<rparr>))
          else return ()))
    (seq (and_then (gets kops_bin) (\<lambda>bin.
          probe_tool w [bin, PStr ''version''] ''kops executable not valid: ''))
    (seq (and_then (in_item ''helm'' config ''paths'') (\<lambda>overridden.
          if overridden then
            and_then (item2 config ''paths'' ''helm'') (\<lambda>p s.
            (Return (), s\<lparr>helm_bin := p\<rparr>))
          else return ()))
    (seq (and_then (gets helm_bin) (\<lambda>bin.
          probe_tool w [bin, PStr ''version'', PStr ''--client'']
            ''helm executable not valid: ''))
    (seq (and_then (in_item ''kubectl'' config ''paths'') (\<lambda>overridden.
          if overridden then
            and_then (item2 config ''paths'' ''kubectl'') (\<lambda>p s.
            (Return (), s\<lparr>kubectl_bin := p\<rparr>))
          else return ()))
         (and_then (gets kubectl_bin) (\<lambda>bin.
          probe_tool w [bin, PStr ''version'', PStr ''--client'']
            ''kubectl executable not valid: ''))))))))"

text \<open>The group callback: it runs before every command and hands it the configuration.\<close>

definition cli :: "world \<Rightarrow> string \<Rightarrow> pyval prog" where
  "cli w values =
     and_then (try_except2 (get_config w values)
                 (\<lambda>e. seq (print_err (''Failed to read values file: '' @ str_exn w e))
                           (sys_exit 1))
                 (\<lambda>e. seq (print_err (''Failed to parse values file: '' @ str_exn w e))
                           (sys_exit 1))) (\<lambda>config.
     seq (try_except (validate_config w config)
            (\<lambda>e. seq (print_err (''Config validation failed: '' @ str_exn w e))
                      (sys_exit 1)))
    (seq (set_binary_paths w config)
         (return config)))"

subsection \<open>Availability pollers\<close>

text \<open>
  One pass through the body of the \<^verbatim>\<open>while\<close> loop of \<open>wait_cluster_available\<close>: the
  probe under a bare \<^verbatim>\<open>except\<close>, then the message and the sleep when the cluster is
  not available. The value is the flag \<^verbatim>\<open>cluster_available\<close> after the pass.
\<close>

definition cluster_probe :: "world \<Rightarrow> bool prog" where
  "cluster_probe w =
     and_then (gets kubectl_bin) (\<lambda>bin.
     and_then (check_output w [bin, PStr ''version'', PStr ''--output'', PStr ''json''])
       (\<lambda>out.
     and_then (lift (json_loads w out)) (\<lambda>kubectl_versions.
     and_then (lift (py_in ''serverVersion'' kubectl_versions)) (\<lambda>found.
     return found))))"

definition cluster_attempt :: "world \<Rightarrow> state \<Rightarrow> bool \<times> state" where
  "cluster_attempt w s =
     (case try_bare (cluster_probe w) (return False) s of
        (Return True, s1) \<Rightarrow> (True, s1)
      | (_, s1) \<Rightarrow>
          (False, snd (seq (print_out ''Cluster unavailable. Waiting 30 seconds before retrying.'')
                           (sleep w 30) s1)))"

definition tiller_probe :: "world \<Rightarrow> bool prog" where
  "tiller_probe w =
     and_then (gets helm_bin) (\<lambda>bin.
     and_then (check_call w [bin, PStr ''version'', PStr ''--server'']) (\<lambda>_.
     return True))"

definition tiller_attempt :: "world \<Rightarrow> state \<Rightarrow> bool \<times> state" where
  "tiller_attempt w s =
     (case try_bare (tiller_probe w) (return False) s of
        (Return True, s1) \<Rightarrow> (True, s1)
      | (_, s1) \<Rightarrow>
          (False, snd (seq (print_out ''Helm Tiller unavailable. Waiting 15 seconds before retrying.'')
                           (sleep w 15) s1)))"

text \<open>The clock does not run backwards during a probe, and a failed pass sleeps.\<close>

lemma check_output_now: "now s \<le> now (snd (check_output w argv s))"
  by (simp add: check_output_def tick_def Let_def split: proc.splits)

lemma cluster_attempt_now:
  assumes "cluster_attempt w s = (False, s')"
  shows "now s < now s'"
proof -
  have "now s \<le> now (snd (try_bare (cluster_probe w) (return False) s))"
    using check_output_now [of s w "[kubectl_bin s, PStr ''version'', PStr ''--output'', PStr ''json'']"]
    by (auto simp: try_bare_def cluster_probe_def and_then_def gets_def lift_def return_def
          split: prod.splits result.splits sum.splits)
  with assms show ?thesis
    by (auto simp: cluster_attempt_def seq_def and_then_def print_out_def emit_def sleep_def
          tick_def second_def split: prod.splits result.splits bool.splits if_splits)
qed

lemma tiller_attempt_now:
  assumes "tiller_attempt w s = (False, s')"
  shows "now s < now s'"
proof -
  have "now s \<le> now (snd (try_bare (tiller_probe w) (return False) s))"
    using check_output_now [of s w "[helm_bin s, PStr ''version'', PStr ''--server'']"]
    by (auto simp: try_bare_def tiller_probe_def check_call_def and_then_def gets_def
          return_def split: prod.splits result.splits)
  with assms show ?thesis
    by (auto simp: tiller_attempt_def seq_def and_then_def print_out_def emit_def sleep_def
          tick_def second_def split: prod.splits result.splits bool.splits if_splits)
qed

text \<open>
  \<^verbatim>\<open>while not cluster_available and time.time() < timeout_time\<close>: the value is the flag
  when the loop is left.
\<close>

function wait_cluster_loop :: "world \<Rightarrow> int \<Rightarrow> state \<Rightarrow> bool \<times> state" where
  "wait_cluster_loop w timeout_time s =
     (if now s < timeout_time then
        (let (available, s') = cluster_attempt w s
         in if available then (True, s') else wait_cluster_loop w timeout_time s')
      else (False, s))"
  by pat_completeness auto
termination
  by (relation "measure (\<lambda>(w, timeout_time, s). nat (timeout_time - now s))")
     (auto dest: cluster_attempt_now [OF sym])

function wait_tiller_loop :: "world \<Rightarrow> int \<Rightarrow> state \<Rightarrow> bool \<times> state" where
  "wait_tiller_loop w timeout_time s =
     (if now s < timeout_time then
        (let (available, s') = tiller_attempt w s
         in if available then (True, s') else wait_tiller_loop w timeout_time s')
      else (False, s))"
  by pat_completeness auto
termination
  by (relation "measure (\<lambda>(w, timeout_time, s). nat (timeout_time - now s))")
     (auto dest: tiller_attempt_now [OF sym])

definition wait_cluster_available :: "world \<Rightarrow> int \<Rightarrow> unit prog" where
  "wait_cluster_available w timeout_minutes s =
     (let timeout_time = now s + timeout_minutes * 60 * int second;
          (cluster_available, s') = wait_cluster_loop w timeout_time s
      in if \<not> cluster_available then
           seq (print_err ''Kubernetes server could not be contacted.'') (sys_exit 1) s'
         else (Return (), s'))"

definition wait_tiller_available :: "world \<Rightarrow> int \<Rightarrow> unit prog" where
  "wait_tiller_available w timeout_minutes s =
     (let timeout_time = now s + timeout_minutes * 60 * int second;
          (tiller_available, s') = wait_tiller_loop w timeout_time s
      in if \<not> tiller_available then
           seq (print_err ''Helm tiller could not be contacted.'') (sys_exit 1) s'
         else (Return (), s'))"

subsection \<open>Chart installer driver\<close>

definition install_chart :: "world \<Rightarrow> pyval \<Rightarrow> pyval \<Rightarrow> pyval \<Rightarrow> pyval \<Rightarrow> unit prog" where
  "install_chart w chart release_name namespace overrides =
     and_then (gets helm_bin) (\<lambda>bin.
     let args = [bin, PStr ''install'', PStr ''--name'', release_name, chart,
                 PStr ''--namespace'', namespace]
     in check_call w (if truthy overrides then args @ [PStr ''--set'', overrides] else args))"

text \<open>The bodies of the two \<^verbatim>\<open>for\<close> loops of \<open>install_components\<close>.\<close>

definition add_repo :: "world \<Rightarrow> pyval \<Rightarrow> unit prog" where
  "add_repo w repo =
     and_then (gets helm_bin) (\<lambda>bin.
     and_then (lift (getitem repo ''name'')) (\<lambda>name.
     and_then (lift (getitem repo ''url'')) (\<lambda>url.
     check_call w [bin, PStr ''repo'', PStr ''add'', name, url])))"

definition install_configured_chart :: "world \<Rightarrow> pyval \<Rightarrow> unit prog" where
  "install_configured_chart w chart =
     and_then (lift (py_in ''overrides'' chart)) (\<lambda>has_overrides.
     and_then (if has_overrides then lift (getitem chart ''overrides'') else return PNone)
       (\<lambda>overrides.
     and_then (lift (getitem chart ''name'')) (\<lambda>name.
     and_then (lift (getitem chart ''release'')) (\<lambda>release.
     and_then (lift (getitem chart ''namespace'')) (\<lambda>namespace.
     install_chart w name release namespace overrides)))))"

text \<open>
  \<open>install_components\<close> in its three parts: the tiller set-up with its poller, the loop
  over the chart repositories, the loop over the charts.
\<close>

definition init_tiller :: "world \<Rightarrow> pyval \<Rightarrow> int \<Rightarrow> unit prog" where
  "init_tiller w config tiller_wait_timeout =
     seq (and_then (gets kubectl_bin) (\<lambda>bin.
          and_then (item2 config ''paths'' ''tillerPermissions'') (\<lambda>manifest.
          check_call w [bin, PStr ''apply'', PStr ''-f'', manifest])))
    (seq (and_then (gets helm_bin) (\<lambda>bin.
          check_call w [bin, PStr ''init'', PStr ''--service-account'', PStr ''tiller'']))
         (wait_tiller_available w tiller_wait_timeout))"

definition add_chart_repos :: "world \<Rightarrow> pyval \<Rightarrow> unit prog" where
  "add_chart_repos w config =
     and_then (lift (py_in ''chartRepos'' config)) (\<lambda>has_repos.
     if has_repos then
       and_then (lift (getitem config ''chartRepos'')) (\<lambda>repos.
       and_then (lift (py_iter repos)) (\<lambda>items.
       for_each (add_repo w) items))
     else return ())"

definition install_charts :: "world \<Rightarrow> pyval \<Rightarrow> unit prog" where
  "install_charts w config =
     and_then (lift (py_in ''charts'' config)) (\<lambda>has_charts.
     if has_charts then
       and_then (lift (getitem config ''charts'')) (\<lambda>charts.
       and_then (lift (py_iter charts)) (\<lambda>items.
       for_each (install_configured_chart w) items))
     else return ())"

definition install_components :: "world \<Rightarrow> pyval \<Rightarrow> int \<Rightarrow> unit prog" where
  "install_components w config tiller_wait_timeout =
     seq (init_tiller w config tiller_wait_timeout)
    (seq (add_chart_repos w config)
         (install_charts w config))"

declare wait_cluster_loop.simps [simp del]
declare wait_tiller_loop.simps [simp del]

subsection \<open>Command flows\<close>

text \<open>\<^verbatim>\<open>cluster_config = config['clusterConfig']\<close>: the name is bound to the shared object.\<close>

definition bind_cluster_config :: "pyval \<Rightarrow> unit prog" where
  "bind_cluster_config config =
     and_then (lift (getitem config ''clusterConfig'')) (\<lambda>obj s.
     (Return (), s\<lparr>cluster_config := obj\<rparr>))"

text \<open>The \<^verbatim>\<open>try\<close> block of \<open>create\<close>.\<close>

definition create_steps :: "world \<Rightarrow> pyval \<Rightarrow> pyval \<Rightarrow> unit prog" where
  "create_steps w paths output_dir =
     and_then (lift (getitem paths ''terraformTemplatePath'')) (\<lambda>template_path.
     and_then (gets cluster_config) (\<lambda>cfg.
     seq (generate_terraform_config w template_path output_dir cfg)
    (let terraform_state_path = fmt w output_dir @ ''/terraform.tfstate''
     in seq (terraform_apply w output_dir terraform_state_path)
       (and_then (lift (getitem paths ''kopsTemplatePath'')) (\<lambda>kops_template_path.
        and_then (generate_kops_config w kops_template_path terraform_state_path output_dir)
          (\<lambda>kops_config_path.
        seq (and_then (cluster_config_item ''ConfigBaseURL'') (\<lambda>url.
             kops_add_cluster w kops_config_path url))
       (seq (and_then (cluster_config_item ''FullyQualifiedName'') (\<lambda>name.
             and_then (lift (getitem paths ''sshPublicKeyPath'')) (\<lambda>key_path.
             and_then (cluster_config_item ''ConfigBaseURL'') (\<lambda>url.
             kops_add_ssh_key w name key_path url))))
            (and_then (cluster_config_item ''FullyQualifiedName'') (\<lambda>name.
             and_then (cluster_config_item ''ConfigBaseURL'') (\<lambda>url.
             kops_update_cluster w name url))))))))))"

definition create :: "world \<Rightarrow> pyval \<Rightarrow> int \<Rightarrow> int \<Rightarrow> unit prog" where
  "create w config cluster_wait_timeout tiller_wait_timeout =
     seq (bind_cluster_config config)
    (and_then (lift (getitem config ''paths'')) (\<lambda>paths.
     and_then (lift (getitem paths ''outputDir'')) (\<lambda>output_dir.
     seq (try_except (create_steps w paths output_dir)
            (\<lambda>e. seq (print_err (''Create cluster failed: '' @ str_exn w e)) (sys_exit 1)))
    (seq (wait_cluster_available w cluster_wait_timeout)
         (install_components w config tiller_wait_timeout)))))"

text \<open>The \<^verbatim>\<open>try\<close> block of \<open>destroy\<close>.\<close>

definition destroy_steps :: "world \<Rightarrow> pyval \<Rightarrow> unit prog" where
  "destroy_steps w config =
     seq (and_then (item2 config ''clusterConfig'' ''FullyQualifiedName'') (\<lambda>name.
          and_then (item2 config ''clusterConfig'' ''ConfigBaseURL'') (\<lambda>url.
          kops_destroy_cluster w name url)))
         (and_then (item2 config ''paths'' ''outputDir'') (\<lambda>output_dir.
          terraform_destroy w output_dir))"

definition destroy :: "world \<Rightarrow> pyval \<Rightarrow> bool \<Rightarrow> unit prog" where
  "destroy w config yes =
     seq (if \<not> yes then
            and_then (item2 config ''clusterConfig'' ''FullyQualifiedName'') (\<lambda>name.
            and_then (click_confirm w (''Are you sure you want to destroy '' @ fmt w name
                                        @ ''?'') True) (\<lambda>_.
            return ()))
          else return ())
         (try_except (destroy_steps w config)
            (\<lambda>e. seq (print_err (''Destroy cluster failed: '' @ str_exn w e)) (sys_exit 1)))"

text \<open>The \<^verbatim>\<open>try\<close> block of \<open>update\<close>.\<close>

definition update_steps :: "world \<Rightarrow> bool \<Rightarrow> pyval \<Rightarrow> pyval \<Rightarrow> pyval \<Rightarrow> unit prog" where
  "update_steps w yes cluster_name paths output_dir =
     and_then (lift (getitem paths ''terraformTemplatePath'')) (\<lambda>template_path.
     and_then (gets cluster_config) (\<lambda>cfg.
     seq (generate_terraform_config w template_path output_dir cfg)
    (let terraform_state_path = fmt w output_dir @ ''/terraform.tfstate''
     in seq (terraform_apply w output_dir terraform_state_path)
       (and_then (lift (getitem paths ''kopsTemplatePath'')) (\<lambda>kops_template_path.
        and_then (generate_kops_config w kops_template_path terraform_state_path output_dir)
          (\<lambda>kops_config_path.
        seq (and_then (cluster_config_item ''ConfigBaseURL'') (\<lambda>url.
             kops_replace_cluster w kops_config_path url))
       (seq (and_then (cluster_config_item ''ConfigBaseURL'') (\<lambda>url.
             kops_update_cluster w cluster_name url))
            (and_then (if yes then return True
                       else click_confirm w ''Should I initiate a rolling update?'' False)
               (\<lambda>rolling.
             if rolling then
               and_then (cluster_config_item ''ConfigBaseURL'') (\<lambda>url.
               kops_rolling_update w cluster_name url)
             else return ())))))))))"

definition update :: "world \<Rightarrow> pyval \<Rightarrow> bool \<Rightarrow> unit prog" where
  "update w config yes =
     seq (bind_cluster_config config)
    (and_then (cluster_config_item ''FullyQualifiedName'') (\<lambda>cluster_name.
     and_then (lift (getitem config ''paths'')) (\<lambda>paths.
     and_then (lift (getitem paths ''outputDir'')) (\<lambda>output_dir.
     seq (if \<not> yes then
            and_then (click_confirm w (''Are you sure you want to update ''
                                        @ fmt w cluster_name @ ''?'') True) (\<lambda>_.
            return ())
          else return ())
         (try_except (update_steps w yes cluster_name paths output_dir)
            (\<lambda>e. seq (print_err (''Update cluster failed: '' @ str_exn w e))
                      (sys_exit 1)))))))"

subsection \<open>The process\<close>

datatype command = Create int int | Update bool | Destroy bool

text \<open>
  \<^verbatim>\<open>ship.py --values V COMMAND\<close>: the group callback, then the command with the
  configuration the callback stored in the context.
\<close>

definition ship :: "world \<Rightarrow> string \<Rightarrow> command \<Rightarrow> unit prog" where
  "ship w values cmd =
     and_then (cli w values) (\<lambda>config.
     case cmd of
       Create cluster_wait_timeout tiller_wait_timeout \<Rightarrow>
         create w config cluster_wait_timeout tiller_wait_timeout
     | Update yes \<Rightarrow> update w config yes
     | Destroy yes \<Rightarrow> destroy w config yes)"

text \<open>The state a process starts in: the module-level defaults of the binary paths.\<close>

definition initial :: "int \<Rightarrow> state" where
  "initial t0 =
     \<lparr>now = t0, steps = 0, trace = [],
      terraform_bin = PStr ''terraform'', kops_bin = PStr ''kops'',
      helm_bin = PStr ''helm'', kubectl_bin = PStr ''kubectl'',
      cluster_config = PNone\<rparr>"

text \<open>
  The exit status of the process: 0 when the command returns, \<open>n\<close> after
  \<^verbatim>\<open>sys.exit(n)\<close>, and 1 when an exception leaves the command (the command-line library
  turns \<open>Abort\<close> into status 1, the interpreter does so for every other exception after
  printing a traceback).
\<close>

fun exit_status :: "'a result \<Rightarrow> int" where
  "exit_status (Return _) = 0"
| "exit_status (SysExit n) = n"
| "exit_status (Raise _) = 1"

text \<open>What the process wrote to the error stream, and the child processes it started.\<close>

fun stderr_of :: "event list \<Rightarrow> string list" where
  "stderr_of [] = []"
| "stderr_of (Stderr m # es) = m # stderr_of es"
| "stderr_of (_ # es) = stderr_of es"

fun execs_of :: "event list \<Rightarrow> pyval list list" where
  "execs_of [] = []"
| "execs_of (Exec argv # es) = argv # execs_of es"
| "execs_of (_ # es) = execs_of es"

section \<open>Laws of sequencing\<close>

lemma and_then_return [simp]: "and_then (return a) f = f a"
  by (rule ext) (simp add: and_then_def return_def)

lemma and_then_raise [simp]: "and_then (raise e) f = raise e"
  by (rule ext) (simp add: and_then_def raise_def)

lemma and_then_sys_exit [simp]: "and_then (sys_exit n) f = sys_exit n"
  by (rule ext) (simp add: and_then_def sys_exit_def)

lemma lift_Inr [simp]: "lift (Inr a) = return a"
  by (rule ext) (simp add: lift_def return_def)

lemma lift_Inl [simp]: "lift (Inl e) = raise e"
  by (rule ext) (simp add: lift_def raise_def)

lemma and_then_gets [simp]: "and_then (gets g) f s = f (g s) s"
  by (simp add: and_then_def gets_def)

lemma seq_return [simp]: "seq (return a) k = k"
  by (simp add: seq_def)

lemma seq_raise [simp]: "seq (raise e) k = raise e"
  by (simp add: seq_def)

lemma and_then_assoc: "and_then (and_then m f) g = and_then m (\<lambda>a. and_then (f a) g)"
  by (rule ext) (simp add: and_then_def split: prod.splits result.splits)

lemma and_then_cases:
  "and_then m f s =
     (case m s of (Return a, s') \<Rightarrow> f a s' | (Raise e, s') \<Rightarrow> (Raise e, s')
                | (SysExit n, s') \<Rightarrow> (SysExit n, s'))"
  by (simp add: and_then_def)

lemma and_then_Return: "m s = (Return a, s') \<Longrightarrow> and_then m f s = f a s'"
  by (simp add: and_then_def)

lemma and_then_Raise: "m s = (Raise e, s') \<Longrightarrow> and_then m f s = (Raise e, s')"
  by (simp add: and_then_def)

lemma and_then_SysExit: "m s = (SysExit n, s') \<Longrightarrow> and_then m f s = (SysExit n, s')"
  by (simp add: and_then_def)

lemma seq_Return: "m s = (Return a, s') \<Longrightarrow> seq m k s = k s'"
  by (simp add: seq_def and_then_def)

lemma seq_Raise: "m s = (Raise e, s') \<Longrightarrow> seq m k s = (Raise e, s')"
  by (simp add: seq_def and_then_def)

lemma seq_SysExit: "m s = (SysExit n, s') \<Longrightarrow> seq m k s = (SysExit n, s')"
  by (simp add: seq_def and_then_def)

text \<open>What one child process does to the state, by its outcome.\<close>

definition after_exec :: "world \<Rightarrow> pyval list \<Rightarrow> state \<Rightarrow> state" where
  "after_exec w argv s = (tick s (elapsed w (steps s)))\<lparr>trace := trace s @ [Exec argv]\<rparr>"

lemma after_exec_fields [simp]:
  "trace (after_exec w argv s) = trace s @ [Exec argv]"
  "steps (after_exec w argv s) = Suc (steps s)"
  "now (after_exec w argv s) = now s + int (elapsed w (steps s))"
  "terraform_bin (after_exec w argv s) = terraform_bin s"
  "kops_bin (after_exec w argv s) = kops_bin s"
  "helm_bin (after_exec w argv s) = helm_bin s"
  "kubectl_bin (after_exec w argv s) = kubectl_bin s"
  "cluster_config (after_exec w argv s) = cluster_config s"
  by (simp_all add: after_exec_def tick_def)

lemma check_call_eq:
  "check_call w argv s =
     (case subprocess w (steps s) argv of
        Returned rc out \<Rightarrow>
          if rc = 0 then (Return (), after_exec w argv s)
          else (Raise (CalledProcessError argv rc), after_exec w argv s)
      | LaunchFailed e \<Rightarrow> (Raise e, after_exec w argv s))"
  by (simp add: check_call_def check_output_def and_then_def return_def after_exec_def Let_def
        split: proc.splits)

lemma check_output_eq:
  "check_output w argv s =
     (case subprocess w (steps s) argv of
        Returned rc out \<Rightarrow>
          if rc = 0 then (Return out, after_exec w argv s)
          else (Raise (CalledProcessError argv rc), after_exec w argv s)
      | LaunchFailed e \<Rightarrow> (Raise e, after_exec w argv s))"
  by (simp add: check_output_def after_exec_def Let_def split: proc.splits)

lemma initial_fields [simp]:
  "now (initial t0) = t0"
  "steps (initial t0) = 0"
  "trace (initial t0) = []"
  "terraform_bin (initial t0) = PStr ''terraform''"
  "kops_bin (initial t0) = PStr ''kops''"
  "helm_bin (initial t0) = PStr ''helm''"
  "kubectl_bin (initial t0) = PStr ''kubectl''"
  "cluster_config (initial t0) = PNone"
  by (simp_all add: initial_def)

lemma execs_of_append [simp]: "execs_of (xs @ ys) = execs_of xs @ execs_of ys"
  by (induction xs rule: execs_of.induct) simp_all

lemma stderr_of_append [simp]: "stderr_of (xs @ ys) = stderr_of xs @ stderr_of ys"
  by (induction xs rule: stderr_of.induct) simp_all

lemmas run_defs = try_except_def item2_def seq_def and_then_cases check_call_eq print_err_def
  emit_def sys_exit_def gets_def return_def raise_def click_confirm_def tick_def Let_def

section \<open>A concrete configuration and a concrete world\<close>

text \<open>
  A well-formed configuration and state file, and a world in which every file exists, every
  tool succeeds at once and the user answers yes. The examples below change one field at a
  time.
\<close>

definition example_config :: pyval where
  "example_config = PDict
     [(''paths'', PDict
         [(''sshPublicKeyPath'', PStr ''id_rsa.pub''),
          (''terraformTemplatePath'', PStr ''net.tf.j2''),
          (''kopsTemplatePath'', PStr ''kops.j2''),
          (''outputDir'', PStr ''out''),
          (''tillerPermissions'', PStr ''tiller.yaml'')]),
      (''clusterConfig'', PDict
         [(''AWSRegion'', PStr ''eu-west-1''),
          (''AWSAZ1'', PStr ''a''),
          (''ShortName'', PStr ''dev''),
          (''FullyQualifiedName'', PStr ''dev.k8s''),
          (''ConfigBaseURL'', PStr ''s3://kops'')])]"

definition example_tfstate :: pyval where
  "example_tfstate = PDict
     [(''modules'', PList [PDict [(''resources'', PDict
         [(''aws_vpc.dev'', PDict [(''primary'', PDict [(''id'', PStr ''vpc-1'')])]),
          (''aws_nat_gateway.public-eu-west-1a'',
             PDict [(''primary'', PDict [(''id'', PStr ''nat-1'')])]),
          (''aws_subnet.nodes-eu-west-1a'',
             PDict [(''primary'', PDict [(''id'', PStr ''subnet-n'')])]),
          (''aws_subnet.public-eu-west-1a'',
             PDict [(''primary'', PDict [(''id'', PStr ''subnet-p'')])])])]])]"

definition calm :: world where
  "calm =
     \<lparr>py_str = (\<lambda>_. ''obj''), exc_str = (\<lambda>_. ''failed''),
      load_values = (\<lambda>_. Inr example_config), load_schema = Inr (PDict []),
      schema_validate = (\<lambda>_ _. None),
      isfile = (\<lambda>_. Inr True), isdir = (\<lambda>_. Inr True),
      subprocess = (\<lambda>_ _. Returned 0 ''ok''), elapsed = (\<lambda>_. 0),
      get_template = (\<lambda>_ _. None), render = (\<lambda>_ _ _. Inr ''text''),
      open_write = (\<lambda>_ _. None), load_json_file = (\<lambda>_ _. Inr example_tfstate),
      json_loads = (\<lambda>_. Inr (PDict [(''serverVersion'', PDict [])])),
      confirm_answer = (\<lambda>_ _. Some True)\<rparr>"

text \<open>The cluster-lifecycle tool exits with status 2 whenever it is asked to delete.\<close>

definition delete_fails :: world where
  "delete_fails =
     calm\<lparr>subprocess := (\<lambda>_ argv.
       if argv ! 1 = PStr ''delete'' then Returned 2 [] else Returned 0 ''ok'')\<rparr>"

text \<open>The cluster-control client answers, but never with decodable output.\<close>

definition never_up :: world where
  "never_up = calm\<lparr>json_loads := (\<lambda>_. Inl (OtherError ''Expecting value''))\<rparr>"

text \<open>No chart installer on this machine: starting \<^verbatim>\<open>helm\<close> fails.\<close>

definition no_helm :: world where
  "no_helm =
     calm\<lparr>subprocess := (\<lambda>_ argv.
       if hd argv = PStr ''helm'' then LaunchFailed (IOError ''No such file or directory'')
       else Returned 0 ''ok'')\<rparr>"

text \<open>The cluster configuration of \<open>example_config\<close>, as the list of its items.\<close>

definition example_cluster_config :: "(string \<times> pyval) list" where
  "example_cluster_config =
     [(''AWSRegion'', PStr ''eu-west-1''), (''AWSAZ1'', PStr ''a''), (''ShortName'', PStr ''dev''),
      (''FullyQualifiedName'', PStr ''dev.k8s''), (''ConfigBaseURL'', PStr ''s3://kops'')]"

text \<open>
  A configuration that overrides the binary of one tool, and a world in which nothing exists
  at one path.
\<close>

definition override_config :: "string \<Rightarrow> string \<Rightarrow> pyval" where
  "override_config tool path = PDict
     [(''paths'', PDict
         [(''sshPublicKeyPath'', PStr ''id_rsa.pub''),
          (''terraformTemplatePath'', PStr ''net.tf.j2''),
          (''kopsTemplatePath'', PStr ''kops.j2''),
          (''outputDir'', PStr ''out''),
          (''tillerPermissions'', PStr ''tiller.yaml''),
          (tool, PStr path)]),
      (''clusterConfig'', PDict example_cluster_config)]"

definition missing_file :: "string \<Rightarrow> world" where
  "missing_file path = calm\<lparr>isfile := (\<lambda>p. Inr (p \<noteq> PStr path))\<rparr>"

text \<open>The user answers no to every question.\<close>

definition declines :: world where
  "declines = calm\<lparr>confirm_answer := (\<lambda>_ _. Some False)\<rparr>"

text \<open>
  The first probe cannot be launched, the second exits with status 1, every later one
  succeeds.
\<close>

definition slow_start :: world where
  "slow_start =
     calm\<lparr>subprocess := (\<lambda>n argv.
       if n = 0 then LaunchFailed (IOError ''Connection refused'')
       else if n = 2 then Returned 1 []
       else Returned 0 ''ok'')\<rparr>"

section \<open>Relations between the state before and after\<close>

text \<open>
  \<open>preserves R m\<close>: running \<open>m\<close> takes every state to one related to it by \<open>R\<close>,
  whatever the outcome. For a reflexive and transitive \<open>R\<close> this carries over from the
  parts of a piece of code to the whole.
\<close>

definition preserves :: "(state \<Rightarrow> state \<Rightarrow> bool) \<Rightarrow> 'a prog \<Rightarrow> bool" where
  "preserves R m = (\<forall>s. R s (snd (m s)))"

definition preorder_on_states :: "(state \<Rightarrow> state \<Rightarrow> bool) \<Rightarrow> bool" where
  "preorder_on_states R = ((\<forall>s. R s s) \<and> (\<forall>s t u. R s t \<longrightarrow> R t u \<longrightarrow> R s u))"

lemma preservesD: "preserves R m \<Longrightarrow> m s = (r, s') \<Longrightarrow> R s s'"
  by (auto simp: preserves_def dest: spec [of _ s])

lemma preserves_return: "preorder_on_states R \<Longrightarrow> preserves R (return a)"
  by (simp add: preserves_def preorder_on_states_def return_def)

lemma preserves_raise: "preorder_on_states R \<Longrightarrow> preserves R (raise e)"
  by (simp add: preserves_def preorder_on_states_def raise_def)

lemma preserves_sys_exit: "preorder_on_states R \<Longrightarrow> preserves R (sys_exit n)"
  by (simp add: preserves_def preorder_on_states_def sys_exit_def)

lemma preserves_lift: "preorder_on_states R \<Longrightarrow> preserves R (lift x)"
  by (simp add: preserves_def preorder_on_states_def lift_def split: sum.splits)

lemma preserves_gets: "preorder_on_states R \<Longrightarrow> preserves R (gets f)"
  by (simp add: preserves_def preorder_on_states_def gets_def)

lemma preserves_and_then:
  assumes "preorder_on_states R" "preserves R m" "\<And>a. preserves R (f a)"
  shows "preserves R (and_then m f)"
  unfolding preserves_def
proof
  fix s
  obtain r s1 where m: "m s = (r, s1)" by (cases "m s")
  with assms(2) have 1: "R s s1" by (auto dest: preservesD)
  show "R s (snd (and_then m f s))"
  proof (cases r)
    case (Return a)
    obtain r2 s2 where f: "f a s1 = (r2, s2)" by (cases "f a s1")
    with assms(3) have "R s1 s2" by (auto dest: preservesD)
    with 1 assms(1) have "R s s2" by (auto simp: preorder_on_states_def)
    with m f Return show ?thesis by (simp add: and_then_def)
  qed (use m 1 in \<open>simp_all add: and_then_def\<close>)
qed

lemma preserves_seq:
  "preorder_on_states R \<Longrightarrow> preserves R m \<Longrightarrow> preserves R k \<Longrightarrow> preserves R (seq m k)"
  by (simp add: seq_def preserves_and_then)

lemma preserves_try_except:
  assumes "preorder_on_states R" "preserves R m" "\<And>e. preserves R (h e)"
  shows "preserves R (try_except m h)"
  unfolding preserves_def
proof
  fix s
  obtain r s1 where m: "m s = (r, s1)" by (cases "m s")
  with assms(2) have 1: "R s s1" by (auto dest: preservesD)
  show "R s (snd (try_except m h s))"
  proof (cases r)
    case (Raise e)
    obtain r2 s2 where h: "h e s1 = (r2, s2)" by (cases "h e s1")
    with assms(3) have "R s1 s2" by (auto dest: preservesD)
    with 1 assms(1) have "R s s2" by (auto simp: preorder_on_states_def)
    with m h Raise 1 show ?thesis by (simp add: try_except_def)
  qed (use m 1 in \<open>simp_all add: try_except_def\<close>)
qed

lemma preserves_try_except2:
  assumes "preorder_on_states R" "preserves R m" "\<And>e. preserves R (h1 e)"
    "\<And>e. preserves R (h2 e)"
  shows "preserves R (try_except2 m h1 h2)"
  unfolding preserves_def
proof
  fix s
  obtain r s1 where m: "m s = (r, s1)" by (cases "m s")
  with assms(2) have 1: "R s s1" by (auto dest: preservesD)
  show "R s (snd (try_except2 m h1 h2 s))"
  proof (cases r)
    case (Raise e)
    have "R s1 (snd (h1 e s1))" "R s1 (snd (h2 e s1))"
      using assms(3,4) by (auto simp: preserves_def)
    with 1 assms(1) have "R s (snd (h1 e s1))" "R s (snd (h2 e s1))"
      by (auto simp: preorder_on_states_def)
    with m Raise 1 show ?thesis by (simp add: try_except2_def)
  qed (use m 1 in \<open>simp_all add: try_except2_def\<close>)
qed

lemma preserves_try_bare:
  assumes "preorder_on_states R" "preserves R m" "preserves R h"
  shows "preserves R (try_bare m h)"
  unfolding preserves_def
proof
  fix s
  obtain r s1 where m: "m s = (r, s1)" by (cases "m s")
  with assms(2) have 1: "R s s1" by (auto dest: preservesD)
  have "R s1 (snd (h s1))" using assms(3) by (auto simp: preserves_def)
  with 1 assms(1) have "R s (snd (h s1))" by (auto simp: preorder_on_states_def)
  with m 1 show "R s (snd (try_bare m h s))"
    by (cases r) (simp_all add: try_bare_def)
qed

lemma preserves_if:
  "preserves R a \<Longrightarrow> preserves R b \<Longrightarrow> preserves R (if c then a else b)"
  by simp

lemma preserves_for_each:
  assumes "preorder_on_states R" "\<And>x. preserves R (body x)"
  shows "preserves R (for_each body xs)"
  by (induction xs) (simp_all add: assms preserves_return preserves_seq)

lemmas preserves_intros = preserves_return preserves_raise preserves_sys_exit preserves_lift
  preserves_gets preserves_and_then preserves_seq preserves_try_except preserves_try_except2
  preserves_try_bare preserves_if preserves_for_each

lemma preserves_weaken:
  "preserves R m \<Longrightarrow> (\<And>s s'. R s s' \<Longrightarrow> R' s s') \<Longrightarrow> preserves R' m"
  by (simp add: preserves_def)

text \<open>The events a piece of code adds to the trace all satisfy \<open>P\<close>.\<close>

definition adds_only :: "(event \<Rightarrow> bool) \<Rightarrow> state \<Rightarrow> state \<Rightarrow> bool" where
  "adds_only P s s' = (\<exists>evs. trace s' = trace s @ evs \<and> list_all P evs)"

lemma adds_only_preorder: "preorder_on_states (adds_only P)"
  unfolding preorder_on_states_def adds_only_def
proof (intro conjI allI impI)
  fix s show "\<exists>evs. trace s = trace s @ evs \<and> list_all P evs"
    by (rule exI [of _ "[]"]) simp
next
  fix s t u
  assume "\<exists>evs. trace t = trace s @ evs \<and> list_all P evs"
    and "\<exists>evs. trace u = trace t @ evs \<and> list_all P evs"
  then obtain e1 e2 where "trace t = trace s @ e1" "list_all P e1"
    "trace u = trace t @ e2" "list_all P e2" by blast
  then show "\<exists>evs. trace u = trace s @ evs \<and> list_all P evs"
    by (intro exI [of _ "e1 @ e2"]) simp
qed

lemma adds_only_one: "trace s' = trace s @ [ev] \<Longrightarrow> P ev \<Longrightarrow> adds_only P s s'"
  by (simp add: adds_only_def)

lemma adds_only_none: "trace s' = trace s \<Longrightarrow> adds_only P s s'"
  by (simp add: adds_only_def)

lemma adds_check_output: "P (Exec argv) \<Longrightarrow> preserves (adds_only P) (check_output w argv)"
  by (auto simp: preserves_def check_output_eq intro!: adds_only_one split: proc.splits)

lemma adds_check_call: "P (Exec argv) \<Longrightarrow> preserves (adds_only P) (check_call w argv)"
  by (auto simp: preserves_def check_call_eq intro!: adds_only_one split: proc.splits)

lemma adds_emit: "P ev \<Longrightarrow> preserves (adds_only P) (emit ev)"
  by (auto simp: preserves_def emit_def intro!: adds_only_one)

lemma adds_sleep: "P (Sleep n) \<Longrightarrow> preserves (adds_only P) (sleep w n)"
  by (auto simp: preserves_def sleep_def tick_def intro!: adds_only_one)

lemma adds_click_confirm:
  "P (Prompt q) \<Longrightarrow> preserves (adds_only P) (click_confirm w q abort)"
  by (auto simp: preserves_def click_confirm_def tick_def Let_def intro!: adds_only_one
        split: option.splits)

lemma adds_env_get_template: "preserves (adds_only P) (env_get_template w tpl)"
  by (auto simp: preserves_def env_get_template_def tick_def intro!: adds_only_none
        split: option.splits)

lemma adds_template_render:
  "P (Render tpl) \<Longrightarrow> preserves (adds_only P) (template_render w tpl vals)"
  by (auto simp: preserves_def template_render_def tick_def Let_def intro!: adds_only_one
        split: sum.splits)

lemma adds_open_for_write:
  "P (OpenWrite path) \<Longrightarrow> preserves (adds_only P) (open_for_write w path)"
  by (auto simp: preserves_def open_for_write_def tick_def Let_def intro!: adds_only_one
        split: option.splits)

lemma adds_json_load_file:
  "P (ReadFile path) \<Longrightarrow> preserves (adds_only P) (json_load_file w path)"
  by (auto simp: preserves_def json_load_file_def tick_def Let_def intro!: adds_only_one
        split: sum.splits)

lemma adds_update_cluster_config: "preserves (adds_only P) (update_cluster_config stmt)"
  by (auto simp: preserves_def update_cluster_config_def intro!: adds_only_none
        split: sum.splits)

lemmas adds_intros = adds_check_output adds_check_call adds_emit adds_sleep adds_click_confirm
  adds_env_get_template adds_template_render adds_open_for_write adds_json_load_file
  adds_update_cluster_config

text \<open>Code that leaves the shared \<open>cluster_config\<close> object alone.\<close>

definition same_config :: "state \<Rightarrow> state \<Rightarrow> bool" where
  "same_config s s' = (cluster_config s' = cluster_config s)"

lemma same_config_preorder: "preorder_on_states same_config"
  by (simp add: preorder_on_states_def same_config_def)

lemma same_config_prims:
  "preserves same_config (check_output w argv)"
  "preserves same_config (check_call w argv)"
  "preserves same_config (emit ev)"
  "preserves same_config (sleep w n)"
  "preserves same_config (click_confirm w q abort)"
  "preserves same_config (env_get_template w tpl)"
  "preserves same_config (template_render w tpl vals)"
  "preserves same_config (open_for_write w path)"
  "preserves same_config (json_load_file w path)"
  by (auto simp: preserves_def same_config_def check_output_eq check_call_eq emit_def sleep_def
        click_confirm_def env_get_template_def template_render_def open_for_write_def
        json_load_file_def tick_def Let_def split: proc.splits option.splits sum.splits)

text \<open>What one guarded assignment of \<open>generate_kops_config\<close> does to a dictionary.\<close>

lemma fill_step:
  assumes "cluster_config s = PDict kvs"
    and "update_cluster_config (fill_from_state f res key) s = (r, s')"
  shows "\<exists>kvs'. s' = s\<lparr>cluster_config := PDict kvs'\<rparr>
           \<and> (\<forall>k. k \<noteq> f \<longrightarrow> map_of kvs' k = map_of kvs k)
           \<and> (\<forall>v. map_of kvs f = Some v \<longrightarrow> map_of kvs' f = Some v)
           \<and> (r = Return () \<and> map_of kvs f = None \<longrightarrow>
                (\<exists>key' v. key (PDict kvs) = Inr key' \<and> resource_id res key' = Inr v
                           \<and> map_of kvs' f = Some v))"
proof (cases "f \<in> set (map fst kvs)")
  case True
  then obtain v where "map_of kvs f = Some v"
    by (metis map_of_eq_None_iff not_Some_eq set_map)
  with True assms show ?thesis
    by (intro exI [of _ kvs])
       (auto simp: update_cluster_config_def fill_from_state_def on_value_def)
next
  case False
  then have none: "map_of kvs f = None"
    by (simp add: map_of_eq_None_iff)
  show ?thesis
  proof (cases "on_value (key (PDict kvs)) (resource_id res)")
    case (Inl e)
    with False assms none show ?thesis
      by (intro exI [of _ kvs])
         (auto simp: update_cluster_config_def fill_from_state_def on_value_def
            split: sum.splits)
  next
    case (Inr v)
    with False assms none show ?thesis
      by (intro exI [of _ "AList.update f v kvs"])
         (auto simp: update_cluster_config_def fill_from_state_def on_value_def update_conv'
            split: sum.splits)
  qed
qed

definition keeps_item :: "string \<Rightarrow> state \<Rightarrow> state \<Rightarrow> bool" where
  "keeps_item k s s' =
     (\<forall>v. getitem (cluster_config s) k = Inr v \<longrightarrow> getitem (cluster_config s') k = Inr v)"

lemma keeps_item_preorder: "preorder_on_states (keeps_item k)"
  by (simp add: preorder_on_states_def keeps_item_def)

lemma same_config_keeps: "same_config s s' \<Longrightarrow> keeps_item k s s'"
  by (simp add: same_config_def keeps_item_def)

lemma getitem_Inr_dict: "getitem c k = Inr v \<Longrightarrow> \<exists>kvs. c = PDict kvs \<and> map_of kvs k = Some v"
  by (cases c) (auto split: option.splits)

lemma fill_keeps: "preserves (keeps_item k) (update_cluster_config (fill_from_state f res key))"
  unfolding preserves_def keeps_item_def
proof (intro allI impI)
  fix s :: state and v
  assume "getitem (cluster_config s) k = Inr v"
  then obtain kvs where c: "cluster_config s = PDict kvs" and k: "map_of kvs k = Some v"
    by (auto dest: getitem_Inr_dict)
  obtain r s' where u: "update_cluster_config (fill_from_state f res key) s = (r, s')"
    by (cases "update_cluster_config (fill_from_state f res key) s")
  from fill_step [OF c u] k u
  show "getitem (cluster_config (snd (update_cluster_config (fill_from_state f res key) s))) k
          = Inr v"
    by (cases "k = f") auto
qed

lemma enrich_keeps: "preserves (keeps_item k) (enrich_from_state w path)"
  unfolding enrich_from_state_def cluster_config_item_def Let_def
  by (intro preserves_intros keeps_item_preorder fill_keeps
        preserves_weaken [OF same_config_prims(9) same_config_keeps])

lemma generate_kops_config_keeps:
  "preserves (keeps_item k) (generate_kops_config w tpl path out)"
  unfolding generate_kops_config_def Let_def file_write_def
  by (intro preserves_intros keeps_item_preorder enrich_keeps
        preserves_weaken [OF same_config_prims(3) same_config_keeps]
        preserves_weaken [OF same_config_prims(6) same_config_keeps]
        preserves_weaken [OF same_config_prims(7) same_config_keeps]
        preserves_weaken [OF same_config_prims(8) same_config_keeps])

text \<open>
  The claim about enrichment, in the specification's words: the identifier comes from
  the state file's entry \<open>tf_state['modules'][0]['resources'][name]['primary']['id']\<close>,
  where \<open>name\<close> follows the naming convention.
\<close>

definition state_entry_id :: "pyval \<Rightarrow> string \<Rightarrow> exn + pyval" where
  "state_entry_id tf_state name =
     on_value (getitem tf_state ''modules'') (\<lambda>modules.
     on_value (getitem0 modules) (\<lambda>module0.
     on_value (getitem module0 ''resources'') (\<lambda>resources.
     on_value (getitem resources name) (\<lambda>entry.
     on_value (getitem entry ''primary'') (\<lambda>primary.
     getitem primary ''id'')))))"

definition item_or_none :: "pyval \<Rightarrow> string \<Rightarrow> pyval" where
  "item_or_none obj k = (case getitem obj k of Inr v \<Rightarrow> v | Inl _ \<Rightarrow> PNone)"

definition state_entry_name :: "world \<Rightarrow> pyval \<Rightarrow> string \<Rightarrow> string" where
  "state_entry_name w cfg field =
     (let region = fmt w (item_or_none cfg ''AWSRegion'') @ fmt w (item_or_none cfg ''AWSAZ1'')
      in if field = ''VPCID'' then ''aws_vpc.'' @ fmt w (item_or_none cfg ''ShortName'')
         else if field = ''PublicNATGatewayID'' then ''aws_nat_gateway.public-'' @ region
         else if field = ''NodeSubnetID'' then ''aws_subnet.nodes-'' @ region
         else ''aws_subnet.public-'' @ region)"

lemma and_then_ReturnE:
  assumes "and_then m f s = (Return b, s')"
  obtains a s1 where "m s = (Return a, s1)" "f a s1 = (Return b, s')"
  using assms by (auto simp: and_then_def split: prod.splits result.splits)

lemma seq_ReturnE:
  assumes "seq m k s = (Return b, s')"
  obtains a s1 where "m s = (Return a, s1)" "k s1 = (Return b, s')"
  using assms by (auto simp: seq_def and_then_def split: prod.splits result.splits)

lemma lift_ReturnE:
  assumes "lift x s = (Return a, s')"
  obtains "x = Inr a" "s' = s"
  using assms by (auto simp: lift_def split: sum.splits)

lemma json_load_file_ReturnE:
  assumes "json_load_file w path s = (Return v, s')"
  obtains "load_json_file w (steps s) path = Inr v" "cluster_config s' = cluster_config s"
  using assms by (auto simp: json_load_file_def tick_def Let_def split: sum.splits)

lemma cluster_config_item_ReturnE:
  assumes "cluster_config_item k s = (Return v, s')"
  obtains "getitem (cluster_config s) k = Inr v" "s' = s"
  using assms by (auto simp: cluster_config_item_def gets_def and_then_def lift_def split: sum.splits)

lemma enrich_success:
  assumes c: "cluster_config s = PDict kvs"
    and e: "enrich_from_state w path s = (Return (), s1)"
    and f: "field \<in> {''VPCID'', ''PublicNATGatewayID'', ''NodeSubnetID'', ''PublicSubnetID''}"
    and n: "map_of kvs field = None"
  shows "\<exists>tf v. load_json_file w (steps s) path = Inr tf
            \<and> state_entry_id tf (state_entry_name w (PDict kvs) field) = Inr v
            \<and> getitem (cluster_config s1) field = Inr v"
proof -
  from e obtain tf mods m0 res reg az s0 sa sb sc where
    load: "load_json_file w (steps s) path = Inr tf"
    and tf: "getitem tf ''modules'' = Inr mods" "getitem0 mods = Inr m0"
      "getitem m0 ''resources'' = Inr res"
    and s0: "cluster_config s0 = cluster_config s"
    and reg: "getitem (cluster_config s0) ''AWSRegion'' = Inr reg"
      "getitem (cluster_config s0) ''AWSAZ1'' = Inr az"
    and u1: "update_cluster_config (fill_from_state ''VPCID'' res
               (\<lambda>cfg. on_value (getitem cfg ''ShortName'') (str_plus ''aws_vpc.''))) s0
             = (Return (), sa)"
    and u2: "update_cluster_config (fill_from_state ''PublicNATGatewayID'' res
               (\<lambda>cfg. Inr (''aws_nat_gateway.public-'' @ fmt w reg @ fmt w az))) sa
             = (Return (), sb)"
    and u3: "update_cluster_config (fill_from_state ''NodeSubnetID'' res
               (\<lambda>cfg. Inr (''aws_subnet.nodes-'' @ fmt w reg @ fmt w az))) sb
             = (Return (), sc)"
    and u4: "update_cluster_config (fill_from_state ''PublicSubnetID'' res
               (\<lambda>cfg. Inr (''aws_subnet.public-'' @ fmt w reg @ fmt w az))) sc
             = (Return (), s1)"
    unfolding enrich_from_state_def Let_def
    by (elim and_then_ReturnE seq_ReturnE lift_ReturnE json_load_file_ReturnE
          cluster_config_item_ReturnE) auto
  from c s0 have c0: "cluster_config s0 = PDict kvs" by simp
  from fill_step [OF c0 u1] obtain ka where
    ca: "cluster_config sa = PDict ka"
    and a1: "\<forall>k. k \<noteq> ''VPCID'' \<longrightarrow> map_of ka k = map_of kvs k"
    and a2: "map_of kvs ''VPCID'' = None \<longrightarrow>
               (\<exists>key' v. on_value (getitem (PDict kvs) ''ShortName'') (str_plus ''aws_vpc.'') = Inr key'
                  \<and> resource_id res key' = Inr v \<and> map_of ka ''VPCID'' = Some v)"
    by auto
  from fill_step [OF ca u2] obtain kb where
    cb: "cluster_config sb = PDict kb"
    and b1: "\<forall>k. k \<noteq> ''PublicNATGatewayID'' \<longrightarrow> map_of kb k = map_of ka k"
    and b2: "map_of ka ''PublicNATGatewayID'' = None \<longrightarrow>
               (\<exists>v. resource_id res (''aws_nat_gateway.public-'' @ fmt w reg @ fmt w az) = Inr v
                  \<and> map_of kb ''PublicNATGatewayID'' = Some v)"
    by auto
  from fill_step [OF cb u3] obtain kc where
    cc: "cluster_config sc = PDict kc"
    and c1: "\<forall>k. k \<noteq> ''NodeSubnetID'' \<longrightarrow> map_of kc k = map_of kb k"
    and c2: "map_of kb ''NodeSubnetID'' = None \<longrightarrow>
               (\<exists>v. resource_id res (''aws_subnet.nodes-'' @ fmt w reg @ fmt w az) = Inr v
                  \<and> map_of kc ''NodeSubnetID'' = Some v)"
    by auto
  from fill_step [OF cc u4] obtain kd where
    cd: "cluster_config s1 = PDict kd"
    and d1: "\<forall>k. k \<noteq> ''PublicSubnetID'' \<longrightarrow> map_of kd k = map_of kc k"
    and d2: "map_of kc ''PublicSubnetID'' = None \<longrightarrow>
               (\<exists>v. resource_id res (''aws_subnet.public-'' @ fmt w reg @ fmt w az) = Inr v
                  \<and> map_of kd ''PublicSubnetID'' = Some v)"
    by auto
  have entry: "state_entry_id tf name = resource_id res name" for name
    using tf by (simp add: state_entry_id_def resource_id_def on_value_def)
  have region: "fmt w (item_or_none (PDict kvs) ''AWSRegion'') = fmt w reg"
    "fmt w (item_or_none (PDict kvs) ''AWSAZ1'') = fmt w az"
    using reg c0 by (simp_all add: item_or_none_def)
  consider "field = ''VPCID''" | "field = ''PublicNATGatewayID''" | "field = ''NodeSubnetID''"
    | "field = ''PublicSubnetID''" using f by auto
  then show ?thesis
  proof cases
    case 1
    with n a2 obtain key' v where
      k: "on_value (getitem (PDict kvs) ''ShortName'') (str_plus ''aws_vpc.'') = Inr key'"
      and v: "resource_id res key' = Inr v" "map_of ka ''VPCID'' = Some v" by auto
    from k obtain sn where "map_of kvs ''ShortName'' = Some (PStr sn)" "key' = ''aws_vpc.'' @ sn"
      by (auto simp: on_value_def split: option.splits sum.splits elim: str_plus.elims)
    then have "state_entry_name w (PDict kvs) field = key'"
      using 1 by (simp add: state_entry_name_def item_or_none_def)
    moreover have "map_of kd ''VPCID'' = Some v"
      using v b1 c1 d1 by simp
    ultimately show ?thesis
      using load v cd 1 by (auto simp: entry)
  next
    case 2
    with n a1 have "map_of ka ''PublicNATGatewayID'' = None" by simp
    with b2 obtain v where
      v: "resource_id res (''aws_nat_gateway.public-'' @ fmt w reg @ fmt w az) = Inr v"
        "map_of kb ''PublicNATGatewayID'' = Some v" by auto
    have "state_entry_name w (PDict kvs) field
            = ''aws_nat_gateway.public-'' @ fmt w reg @ fmt w az"
      using 2 region by (simp add: state_entry_name_def)
    moreover have "map_of kd ''PublicNATGatewayID'' = Some v"
      using v c1 d1 by simp
    ultimately show ?thesis
      using load v cd 2 by (auto simp: entry)
  next
    case 3
    with n a1 b1 have "map_of kb ''NodeSubnetID'' = None" by simp
    with c2 obtain v where
      v: "resource_id res (''aws_subnet.nodes-'' @ fmt w reg @ fmt w az) = Inr v"
        "map_of kc ''NodeSubnetID'' = Some v" by auto
    have "state_entry_name w (PDict kvs) field = ''aws_subnet.nodes-'' @ fmt w reg @ fmt w az"
      using 3 region by (simp add: state_entry_name_def)
    moreover have "map_of kd ''NodeSubnetID'' = Some v"
      using v d1 by simp
    ultimately show ?thesis
      using load v cd 3 by (auto simp: entry)
  next
    case 4
    with n a1 b1 c1 have "map_of kc ''PublicSubnetID'' = None" by simp
    with d2 obtain v where
      v: "resource_id res (''aws_subnet.public-'' @ fmt w reg @ fmt w az) = Inr v"
        "map_of kd ''PublicSubnetID'' = Some v" by auto
    have "state_entry_name w (PDict kvs) field = ''aws_subnet.public-'' @ fmt w reg @ fmt w az"
      using 4 region by (simp add: state_entry_name_def)
    then show ?thesis
      using load v cd 4 by (auto simp: entry)
  qed
qed

lemma kops_config_written:
  "preserves same_config
     (seq (env_get_template w tpl)
       (let kops_config_path = fmt w out @ ''/kops.config''
        in seq (open_for_write w kops_config_path)
          (and_then (gets cluster_config) (\<lambda>cfg.
           and_then (template_render w tpl cfg) (\<lambda>rendered.
           seq (file_write kops_config_path rendered)
               (return kops_config_path))))))"
  unfolding Let_def file_write_def
  by (intro preserves_intros same_config_preorder same_config_prims)

text \<open>
  The pollers: what one pass through the loop body does, by the outcome of its probe, and
  the shape of the trace the loop leaves.
\<close>

definition cluster_probe_argv :: "state \<Rightarrow> pyval list" where
  "cluster_probe_argv s = [kubectl_bin s, PStr ''version'', PStr ''--output'', PStr ''json'']"

definition tiller_probe_argv :: "state \<Rightarrow> pyval list" where
  "tiller_probe_argv s = [helm_bin s, PStr ''version'', PStr ''--server'']"

definition cluster_up :: "world \<Rightarrow> state \<Rightarrow> bool" where
  "cluster_up w s =
     (case subprocess w (steps s) (cluster_probe_argv s) of
        Returned rc out \<Rightarrow>
          rc = 0 \<and> (case json_loads w out of
                      Inr v \<Rightarrow> py_in ''serverVersion'' v = Inr True
                    | Inl _ \<Rightarrow> False)
      | LaunchFailed _ \<Rightarrow> False)"

definition tiller_up :: "world \<Rightarrow> state \<Rightarrow> bool" where
  "tiller_up w s =
     (case subprocess w (steps s) (tiller_probe_argv s) of
        Returned rc out \<Rightarrow> rc = 0
      | LaunchFailed _ \<Rightarrow> False)"

definition after_pause :: "world \<Rightarrow> string \<Rightarrow> nat \<Rightarrow> state \<Rightarrow> state" where
  "after_pause w msg n s =
     (tick s (n * second + elapsed w (steps s)))\<lparr>trace := trace s @ [Stdout msg, Sleep n]\<rparr>"

lemma after_pause_fields [simp]:
  "trace (after_pause w msg n s) = trace s @ [Stdout msg, Sleep n]"
  "steps (after_pause w msg n s) = Suc (steps s)"
  "now (after_pause w msg n s) = now s + int (n * second + elapsed w (steps s))"
  "terraform_bin (after_pause w msg n s) = terraform_bin s"
  "kops_bin (after_pause w msg n s) = kops_bin s"
  "helm_bin (after_pause w msg n s) = helm_bin s"
  "kubectl_bin (after_pause w msg n s) = kubectl_bin s"
  "cluster_config (after_pause w msg n s) = cluster_config s"
  by (simp_all add: after_pause_def tick_def)

lemma cluster_attempt_eq:
  "cluster_attempt w s =
     (if cluster_up w s then (True, after_exec w (cluster_probe_argv s) s)
      else (False, after_pause w ''Cluster unavailable. Waiting 30 seconds before retrying.'' 30
                     (after_exec w (cluster_probe_argv s) s)))"
  by (auto simp: cluster_attempt_def cluster_up_def cluster_probe_argv_def try_bare_def
        cluster_probe_def and_then_cases gets_def check_output_eq lift_def return_def seq_def
        print_out_def emit_def sleep_def after_pause_def tick_def
        split: proc.splits sum.splits bool.splits)

lemma tiller_attempt_eq:
  "tiller_attempt w s =
     (if tiller_up w s then (True, after_exec w (tiller_probe_argv s) s)
      else (False, after_pause w ''Helm Tiller unavailable. Waiting 15 seconds before retrying.'' 15
                     (after_exec w (tiller_probe_argv s) s)))"
  by (auto simp: tiller_attempt_def tiller_up_def tiller_probe_argv_def try_bare_def
        tiller_probe_def and_then_cases gets_def check_call_eq return_def seq_def
        print_out_def emit_def sleep_def after_pause_def tick_def
        split: proc.splits sum.splits bool.splits)

definition failed_round :: "pyval list \<Rightarrow> string \<Rightarrow> nat \<Rightarrow> event list" where
  "failed_round argv msg n = [Exec argv, Stdout msg, Sleep n]"

lemma wait_cluster_loop_trace:
  assumes "wait_cluster_loop w deadline s = (b, s')"
  shows "kubectl_bin s' = kubectl_bin s
       \<and> (\<exists>n. trace s' = trace s
                  @ concat (replicate n (failed_round (cluster_probe_argv s)
                       ''Cluster unavailable. Waiting 30 seconds before retrying.'' 30))
                  @ (if b then [Exec (cluster_probe_argv s)] else []))
       \<and> (\<not> b \<longrightarrow> deadline \<le> now s')"
  using assms
proof (induction w deadline s arbitrary: b s' rule: wait_cluster_loop.induct)
  case (1 w deadline s)
  show ?case
  proof (cases "now s < deadline")
    case False
    with "1.prems" show ?thesis
      by (auto simp: wait_cluster_loop.simps [of w deadline s] intro: exI [of _ 0])
  next
    case live: True
    show ?thesis
    proof (cases "cluster_up w s")
      case True
      with live "1.prems" show ?thesis
        by (auto simp: wait_cluster_loop.simps [of w deadline s] cluster_attempt_eq
              intro: exI [of _ 0])
    next
      case False
      let ?s1 = "after_pause w ''Cluster unavailable. Waiting 30 seconds before retrying.'' 30
                     (after_exec w (cluster_probe_argv s) s)"
      from False live "1.prems" have loop: "wait_cluster_loop w deadline ?s1 = (b, s')"
        by (simp add: wait_cluster_loop.simps [of w deadline s] cluster_attempt_eq)
      have att: "cluster_attempt w s = (False, ?s1)"
        using False by (simp add: cluster_attempt_eq)
      have argv: "cluster_probe_argv ?s1 = cluster_probe_argv s"
        by (simp add: cluster_probe_argv_def)
      note ih = "1.IH" [OF live att [symmetric] refl _ loop, unfolded argv]
      from ih obtain n where
        "kubectl_bin s' = kubectl_bin ?s1"
        "trace s' = trace ?s1
           @ concat (replicate n (failed_round (cluster_probe_argv s)
                ''Cluster unavailable. Waiting 30 seconds before retrying.'' 30))
           @ (if b then [Exec (cluster_probe_argv s)] else [])"
        "\<not> b \<longrightarrow> deadline \<le> now s'"
        by blast
      then show ?thesis
        by (auto simp: failed_round_def intro!: exI [of _ "Suc n"])
    qed
  qed
qed

lemma wait_tiller_loop_trace:
  assumes "wait_tiller_loop w deadline s = (b, s')"
  shows "helm_bin s' = helm_bin s
       \<and> (\<exists>n. trace s' = trace s
                  @ concat (replicate n (failed_round (tiller_probe_argv s)
                       ''Helm Tiller unavailable. Waiting 15 seconds before retrying.'' 15))
                  @ (if b then [Exec (tiller_probe_argv s)] else []))
       \<and> (\<not> b \<longrightarrow> deadline \<le> now s')"
  using assms
proof (induction w deadline s arbitrary: b s' rule: wait_tiller_loop.induct)
  case (1 w deadline s)
  show ?case
  proof (cases "now s < deadline")
    case False
    with "1.prems" show ?thesis
      by (auto simp: wait_tiller_loop.simps [of w deadline s] intro: exI [of _ 0])
  next
    case live: True
    show ?thesis
    proof (cases "tiller_up w s")
      case True
      with live "1.prems" show ?thesis
        by (auto simp: wait_tiller_loop.simps [of w deadline s] tiller_attempt_eq
              intro: exI [of _ 0])
    next
      case False
      let ?s1 = "after_pause w ''Helm Tiller unavailable. Waiting 15 seconds before retrying.'' 15
                     (after_exec w (tiller_probe_argv s) s)"
      from False live "1.prems" have loop: "wait_tiller_loop w deadline ?s1 = (b, s')"
        by (simp add: wait_tiller_loop.simps [of w deadline s] tiller_attempt_eq)
      have att: "tiller_attempt w s = (False, ?s1)"
        using False by (simp add: tiller_attempt_eq)
      have argv: "tiller_probe_argv ?s1 = tiller_probe_argv s"
        by (simp add: tiller_probe_argv_def)
      note ih = "1.IH" [OF live att [symmetric] refl _ loop, unfolded argv]
      from ih obtain n where
        "helm_bin s' = helm_bin ?s1"
        "trace s' = trace ?s1
           @ concat (replicate n (failed_round (tiller_probe_argv s)
                ''Helm Tiller unavailable. Waiting 15 seconds before retrying.'' 15))
           @ (if b then [Exec (tiller_probe_argv s)] else [])"
        "\<not> b \<longrightarrow> deadline \<le> now s'"
        by blast
      then show ?thesis
        by (auto simp: failed_round_def intro!: exI [of _ "Suc n"])
    qed
  qed
qed

text \<open>
  A failed pass of a poller as a function on states, and the run of the loop as a number
  of failed passes followed by a successful probe or by the deadline.
\<close>

definition cluster_failed_pass :: "world \<Rightarrow> state \<Rightarrow> state" where
  "cluster_failed_pass w s =
     after_pause w ''Cluster unavailable. Waiting 30 seconds before retrying.'' 30
       (after_exec w (cluster_probe_argv s) s)"

definition tiller_failed_pass :: "world \<Rightarrow> state \<Rightarrow> state" where
  "tiller_failed_pass w s =
     after_pause w ''Helm Tiller unavailable. Waiting 15 seconds before retrying.'' 15
       (after_exec w (tiller_probe_argv s) s)"

lemma concat_replicate_snoc: "concat (replicate n xs) @ xs = concat (replicate (Suc n) xs)"
  by (induction n) simp_all

lemma cluster_passes:
  "kubectl_bin ((cluster_failed_pass w ^^ n) s) = kubectl_bin s
   \<and> trace ((cluster_failed_pass w ^^ n) s) = trace s
        @ concat (replicate n (failed_round (cluster_probe_argv s)
             ''Cluster unavailable. Waiting 30 seconds before retrying.'' 30))"
  by (induction n)
     (simp_all add: cluster_failed_pass_def cluster_probe_argv_def failed_round_def
        concat_replicate_snoc del: replicate.simps)

lemma tiller_passes:
  "helm_bin ((tiller_failed_pass w ^^ n) s) = helm_bin s
   \<and> trace ((tiller_failed_pass w ^^ n) s) = trace s
        @ concat (replicate n (failed_round (tiller_probe_argv s)
             ''Helm Tiller unavailable. Waiting 15 seconds before retrying.'' 15))"
  by (induction n)
     (simp_all add: tiller_failed_pass_def tiller_probe_argv_def failed_round_def
        concat_replicate_snoc del: replicate.simps)

lemma wait_cluster_loop_run:
  assumes "wait_cluster_loop w deadline s = (b, s')"
  shows "\<exists>n. (\<forall>k<n. now ((cluster_failed_pass w ^^ k) s) < deadline
                  \<and> \<not> cluster_up w ((cluster_failed_pass w ^^ k) s))
           \<and> (if b then now ((cluster_failed_pass w ^^ n) s) < deadline
                     \<and> cluster_up w ((cluster_failed_pass w ^^ n) s)
                     \<and> s' = after_exec w (cluster_probe_argv s) ((cluster_failed_pass w ^^ n) s)
               else deadline \<le> now ((cluster_failed_pass w ^^ n) s)
                     \<and> s' = (cluster_failed_pass w ^^ n) s)"
  using assms
proof (induction w deadline s arbitrary: b s' rule: wait_cluster_loop.induct)
  case (1 w deadline s)
  show ?case
  proof (cases "now s < deadline")
    case False
    with "1.prems" show ?thesis
      by (intro exI [of _ 0]) (auto simp: wait_cluster_loop.simps [of w deadline s])
  next
    case live: True
    show ?thesis
    proof (cases "cluster_up w s")
      case True
      with live "1.prems" show ?thesis
        by (intro exI [of _ 0])
           (auto simp: wait_cluster_loop.simps [of w deadline s] cluster_attempt_eq)
    next
      case False
      let ?s1 = "cluster_failed_pass w s"
      from False live "1.prems" have loop: "wait_cluster_loop w deadline ?s1 = (b, s')"
        by (simp add: wait_cluster_loop.simps [of w deadline s] cluster_attempt_eq
              cluster_failed_pass_def)
      have att: "cluster_attempt w s = (False, ?s1)"
        using False by (simp add: cluster_attempt_eq cluster_failed_pass_def)
      have argv: "cluster_probe_argv ?s1 = cluster_probe_argv s"
        by (simp add: cluster_probe_argv_def cluster_failed_pass_def)
      note ih = "1.IH" [OF live att [symmetric] refl _ loop, unfolded argv]
      from ih obtain n where
        n1: "\<forall>k<n. now ((cluster_failed_pass w ^^ k) ?s1) < deadline
                  \<and> \<not> cluster_up w ((cluster_failed_pass w ^^ k) ?s1)"
        and n2: "if b then now ((cluster_failed_pass w ^^ n) ?s1) < deadline
                     \<and> cluster_up w ((cluster_failed_pass w ^^ n) ?s1)
                     \<and> s' = after_exec w (cluster_probe_argv s)
                              ((cluster_failed_pass w ^^ n) ?s1)
               else deadline \<le> now ((cluster_failed_pass w ^^ n) ?s1)
                     \<and> s' = (cluster_failed_pass w ^^ n) ?s1"
        by blast
      have "\<forall>k<Suc n. now ((cluster_failed_pass w ^^ k) s) < deadline
                  \<and> \<not> cluster_up w ((cluster_failed_pass w ^^ k) s)"
      proof (intro allI impI)
        fix k assume "k < Suc n"
        then show "now ((cluster_failed_pass w ^^ k) s) < deadline
                  \<and> \<not> cluster_up w ((cluster_failed_pass w ^^ k) s)"
          using n1 live False by (cases k) (simp_all add: funpow_swap1)
      qed
      with n2 show ?thesis
        by (intro exI [of _ "Suc n"]) (simp add: funpow_swap1)
    qed
  qed
qed

lemma wait_tiller_loop_run:
  assumes "wait_tiller_loop w deadline s = (b, s')"
  shows "\<exists>n. (\<forall>k<n. now ((tiller_failed_pass w ^^ k) s) < deadline
                  \<and> \<not> tiller_up w ((tiller_failed_pass w ^^ k) s))
           \<and> (if b then now ((tiller_failed_pass w ^^ n) s) < deadline
                     \<and> tiller_up w ((tiller_failed_pass w ^^ n) s)
                     \<and> s' = after_exec w (tiller_probe_argv s) ((tiller_failed_pass w ^^ n) s)
               else deadline \<le> now ((tiller_failed_pass w ^^ n) s)
                     \<and> s' = (tiller_failed_pass w ^^ n) s)"
  using assms
proof (induction w deadline s arbitrary: b s' rule: wait_tiller_loop.induct)
  case (1 w deadline s)
  show ?case
  proof (cases "now s < deadline")
    case False
    with "1.prems" show ?thesis
      by (intro exI [of _ 0]) (auto simp: wait_tiller_loop.simps [of w deadline s])
  next
    case live: True
    show ?thesis
    proof (cases "tiller_up w s")
      case True
      with live "1.prems" show ?thesis
        by (intro exI [of _ 0])
           (auto simp: wait_tiller_loop.simps [of w deadline s] tiller_attempt_eq)
    next
      case False
      let ?s1 = "tiller_failed_pass w s"
      from False live "1.prems" have loop: "wait_tiller_loop w deadline ?s1 = (b, s')"
        by (simp add: wait_tiller_loop.simps [of w deadline s] tiller_attempt_eq
              tiller_failed_pass_def)
      have att: "tiller_attempt w s = (False, ?s1)"
        using False by (simp add: tiller_attempt_eq tiller_failed_pass_def)
      have argv: "tiller_probe_argv ?s1 = tiller_probe_argv s"
        by (simp add: tiller_probe_argv_def tiller_failed_pass_def)
      note ih = "1.IH" [OF live att [symmetric] refl _ loop, unfolded argv]
      from ih obtain n where
        n1: "\<forall>k<n. now ((tiller_failed_pass w ^^ k) ?s1) < deadline
                  \<and> \<not> tiller_up w ((tiller_failed_pass w ^^ k) ?s1)"
        and n2: "if b then now ((tiller_failed_pass w ^^ n) ?s1) < deadline
                     \<and> tiller_up w ((tiller_failed_pass w ^^ n) ?s1)
                     \<and> s' = after_exec w (tiller_probe_argv s)
                              ((tiller_failed_pass w ^^ n) ?s1)
               else deadline \<le> now ((tiller_failed_pass w ^^ n) ?s1)
                     \<and> s' = (tiller_failed_pass w ^^ n) ?s1"
        by blast
      have "\<forall>k<Suc n. now ((tiller_failed_pass w ^^ k) s) < deadline
                  \<and> \<not> tiller_up w ((tiller_failed_pass w ^^ k) s)"
      proof (intro allI impI)
        fix k assume "k < Suc n"
        then show "now ((tiller_failed_pass w ^^ k) s) < deadline
                  \<and> \<not> tiller_up w ((tiller_failed_pass w ^^ k) s)"
          using n1 live False by (cases k) (simp_all add: funpow_swap1)
      qed
      with n2 show ?thesis
        by (intro exI [of _ "Suc n"]) (simp add: funpow_swap1)
    qed
  qed
qed

lemma cluster_failed_pass_fields [simp]:
  "trace (cluster_failed_pass w s) = trace s
     @ [Exec (cluster_probe_argv s),
        Stdout ''Cluster unavailable. Waiting 30 seconds before retrying.'', Sleep 30]"
  "steps (cluster_failed_pass w s) = Suc (Suc (steps s))"
  "now (cluster_failed_pass w s)
     = now s + int (elapsed w (steps s)) + int (30 * second + elapsed w (Suc (steps s)))"
  "kubectl_bin (cluster_failed_pass w s) = kubectl_bin s"
  "helm_bin (cluster_failed_pass w s) = helm_bin s"
  by (simp_all add: cluster_failed_pass_def)

lemma tiller_failed_pass_fields [simp]:
  "trace (tiller_failed_pass w s) = trace s
     @ [Exec (tiller_probe_argv s),
        Stdout ''Helm Tiller unavailable. Waiting 15 seconds before retrying.'', Sleep 15]"
  "steps (tiller_failed_pass w s) = Suc (Suc (steps s))"
  "now (tiller_failed_pass w s)
     = now s + int (elapsed w (steps s)) + int (15 * second + elapsed w (Suc (steps s)))"
  "kubectl_bin (tiller_failed_pass w s) = kubectl_bin s"
  "helm_bin (tiller_failed_pass w s) = helm_bin s"
  by (simp_all add: tiller_failed_pass_def)

text \<open>
  Binary resolution and probing: the binary a tool resolves to, the four probes in the
  order \<open>set_binary_paths\<close> runs them, and what counts as a failed probe (a non-zero exit
  status, or an exception of class \<^verbatim>\<open>Exception\<close> on launch).
\<close>

definition resolved :: "(string \<times> pyval) list \<Rightarrow> string \<Rightarrow> pyval \<Rightarrow> pyval" where
  "resolved ps tool dflt = (case map_of ps tool of Some p \<Rightarrow> p | None \<Rightarrow> dflt)"

definition tool_probes :: "(string \<times> pyval) list \<Rightarrow> (string \<times> pyval list) list" where
  "tool_probes ps =
     [(''terraform'', [resolved ps ''terraform'' (PStr ''terraform''), PStr ''--version'']),
      (''kops'', [resolved ps ''kops'' (PStr ''kops''), PStr ''version'']),
      (''helm'', [resolved ps ''helm'' (PStr ''helm''), PStr ''version'', PStr ''--client'']),
      (''kubectl'', [resolved ps ''kubectl'' (PStr ''kubectl''), PStr ''version'',
                     PStr ''--client''])]"

fun probe_failed :: "proc \<Rightarrow> bool" where
  "probe_failed (Returned rc out) = (rc \<noteq> 0)"
| "probe_failed (LaunchFailed e) = is_Exception e"

lemma probe_tool_eq:
  "probe_tool w argv msg s =
     (case subprocess w (steps s) argv of
        Returned rc out \<Rightarrow>
          if rc = 0 then (Return (), after_exec w argv s)
          else (Raise (IOError (msg @ str_exn w (CalledProcessError argv rc))),
                after_exec w argv s)
      | LaunchFailed e \<Rightarrow>
          if is_Exception e then (Raise (IOError (msg @ str_exn w e)), after_exec w argv s)
          else (Raise e, after_exec w argv s))"
  by (simp add: probe_tool_def try_except_def and_then_def check_output_eq return_def raise_def
        split: proc.splits)

definition unchanged :: "state \<Rightarrow> state \<Rightarrow> bool" where
  "unchanged s s' = (s' = s)"

lemma unchanged_preorder: "preorder_on_states unchanged"
  by (simp add: preorder_on_states_def unchanged_def)

lemma validate_config_unchanged: "preserves unchanged (validate_config w config)"
  unfolding validate_config_def validate_file_exists_def item2_def in_item_def
  by (auto intro!: preserves_intros unchanged_preorder split: option.splits)

lemma in_paths_dict:
  "getitem config ''paths'' = Inr (PDict ps) \<Longrightarrow>
     in_item tool config ''paths'' = return (tool \<in> set (map fst ps))"
  by (simp add: in_item_def)

lemma item_paths_dict:
  "getitem config ''paths'' = Inr (PDict ps) \<Longrightarrow>
     item2 config ''paths'' tool = lift (getitem (PDict ps) tool)"
  by (simp add: item2_def)

lemma resolved_in: "tool \<in> set (map fst ps) \<Longrightarrow> getitem (PDict ps) tool = Inr (resolved ps tool d)"
  by (auto simp: resolved_def map_of_eq_None_iff split: option.splits)

lemma resolved_out: "tool \<notin> set (map fst ps) \<Longrightarrow> resolved ps tool d = d"
  by (auto simp: resolved_def map_of_eq_None_iff [symmetric] split: option.splits)


lemma resolved_item:
  "getitem (PDict ps) tool = Inr p \<Longrightarrow> resolved ps tool d = p"
  "getitem (PDict ps) tool = Inl e \<Longrightarrow> resolved ps tool d = d"
  by (auto simp: resolved_def split: option.splits)

lemma resolve_binaries:
  assumes "getitem config ''paths'' = Inr (PDict ps)"
  shows "and_then (in_item ''terraform'' config ''paths'') (\<lambda>overridden.
          if overridden then
            and_then (item2 config ''paths'' ''terraform'') (\<lambda>p s.
            (Return (), s\<lparr>terraform_bin := p\<rparr>))
          else return ())
         = (\<lambda>s. (Return (), s\<lparr>terraform_bin := resolved ps ''terraform'' (terraform_bin s)\<rparr>))"
    and "and_then (in_item ''kops'' config ''paths'') (\<lambda>overridden.
          if overridden then
            and_then (item2 config ''paths'' ''kops'') (\<lambda>p s.
            (Return (), s\<lparr>kops_bin := p\<rparr>))
          else return ())
         = (\<lambda>s. (Return (), s\<lparr>kops_bin := resolved ps ''kops'' (kops_bin s)\<rparr>))"
    and "and_then (in_item ''helm'' config ''paths'') (\<lambda>overridden.
          if overridden then
            and_then (item2 config ''paths'' ''helm'') (\<lambda>p s.
            (Return (), s\<lparr>helm_bin := p\<rparr>))
          else return ())
         = (\<lambda>s. (Return (), s\<lparr>helm_bin := resolved ps ''helm'' (helm_bin s)\<rparr>))"
    and "and_then (in_item ''kubectl'' config ''paths'') (\<lambda>overridden.
          if overridden then
            and_then (item2 config ''paths'' ''kubectl'') (\<lambda>p s.
            (Return (), s\<lparr>kubectl_bin := p\<rparr>))
          else return ())
         = (\<lambda>s. (Return (), s\<lparr>kubectl_bin := resolved ps ''kubectl'' (kubectl_bin s)\<rparr>))"
  using assms
  by (auto simp: in_item_def item2_def return_def and_then_def lift_def resolved_def
        map_of_eq_None_iff [symmetric] fun_eq_iff simp del: map_of_eq_None_iff
        split: option.splits)

text \<open>
  What the group callback can add to the trace: version probes of the tools and messages
  on the error stream, nothing else.
\<close>

fun is_version_probe :: "pyval list \<Rightarrow> bool" where
  "is_version_probe [bin, a] = (a = PStr ''--version'' \<or> a = PStr ''version'')"
| "is_version_probe [bin, a, b] = (a = PStr ''version'' \<and> b = PStr ''--client'')"
| "is_version_probe _ = False"

fun startup_event :: "event \<Rightarrow> bool" where
  "startup_event (Exec argv) = is_version_probe argv"
| "startup_event (Stderr _) = True"
| "startup_event _ = False"

lemma unchanged_adds: "unchanged s s' \<Longrightarrow> adds_only P s s'"
  by (simp add: unchanged_def adds_only_def)

lemma adds_set_bin:
  "preserves (adds_only P) (\<lambda>s. (Return (), s\<lparr>terraform_bin := p\<rparr>))"
  "preserves (adds_only P) (\<lambda>s. (Return (), s\<lparr>kops_bin := p\<rparr>))"
  "preserves (adds_only P) (\<lambda>s. (Return (), s\<lparr>helm_bin := p\<rparr>))"
  "preserves (adds_only P) (\<lambda>s. (Return (), s\<lparr>kubectl_bin := p\<rparr>))"
  by (simp_all add: preserves_def adds_only_def)

lemma set_binary_paths_adds: "preserves (adds_only startup_event) (set_binary_paths w config)"
  unfolding set_binary_paths_def probe_tool_def in_item_def item2_def
  by (intro preserves_intros adds_only_preorder adds_set_bin adds_check_output) simp_all

lemma cli_adds: "preserves (adds_only startup_event) (cli w values)"
  unfolding cli_def get_config_def print_err_def
  by (intro preserves_intros adds_only_preorder adds_emit set_binary_paths_adds
        preserves_weaken [OF validate_config_unchanged unchanged_adds]) simp_all

subsection \<open>The chart installer as a list of commands\<close>

text \<open>
  The command line of one \<^verbatim>\<open>helm repo add\<close> and of one \<^verbatim>\<open>helm install\<close>, as functions
  of the configured entry (an absent item reads as \<open>None\<close>); \<open>add_repo_wf\<close> and
  \<open>install_configured_chart_wf\<close> below show that the loop bodies run exactly these.
\<close>

definition repo_cmd :: "pyval \<Rightarrow> pyval \<Rightarrow> pyval list" where
  "repo_cmd helm repo =
     [helm, PStr ''repo'', PStr ''add'', item_or_none repo ''name'', item_or_none repo ''url'']"

definition chart_cmd :: "pyval \<Rightarrow> pyval \<Rightarrow> pyval list" where
  "chart_cmd helm chart =
     (let args = [helm, PStr ''install'', PStr ''--name'', item_or_none chart ''release'',
                  item_or_none chart ''name'', PStr ''--namespace'',
                  item_or_none chart ''namespace''];
          overrides = item_or_none chart ''overrides''
      in if truthy overrides then args @ [PStr ''--set'', overrides] else args)"

text \<open>An entry with the items that the loop body subscripts.\<close>

fun has_items :: "pyval \<Rightarrow> string list \<Rightarrow> bool" where
  "has_items (PDict kvs) ks = (set ks \<subseteq> set (map fst kvs))"
| "has_items _ ks = False"

definition wf_repo :: "pyval \<Rightarrow> bool" where
  "wf_repo repo = has_items repo [''name'', ''url'']"

definition wf_chart :: "pyval \<Rightarrow> bool" where
  "wf_chart chart = has_items chart [''name'', ''release'', ''namespace'']"

text \<open>
  The outcome of a child process as \<^verbatim>\<open>check_call\<close> sees it: exit status 0, or the
  exception it raises.
\<close>

fun succeeded :: "proc \<Rightarrow> bool" where
  "succeeded (Returned rc out) = (rc = 0)"
| "succeeded (LaunchFailed e) = False"

fun call_error :: "pyval list \<Rightarrow> proc \<Rightarrow> exn" where
  "call_error argv (Returned rc out) = CalledProcessError argv rc"
| "call_error argv (LaunchFailed e) = e"

lemma getitem_present:
  "k \<in> set (map fst kvs) \<Longrightarrow> getitem (PDict kvs) k = Inr (item_or_none (PDict kvs) k)"
  by (auto simp: item_or_none_def map_of_eq_None_iff split: option.splits)

lemma getitem_absent:
  "k \<notin> set (map fst kvs) \<Longrightarrow> item_or_none (PDict kvs) k = PNone"
  by (auto simp: item_or_none_def map_of_eq_None_iff [symmetric] simp del: map_of_eq_None_iff
        split: option.splits)

lemma add_repo_wf:
  "wf_repo repo \<Longrightarrow> add_repo w repo s = check_call w (repo_cmd (helm_bin s) repo) s"
  by (cases repo)
     (simp_all add: wf_repo_def add_repo_def repo_cmd_def getitem_present
        del: getitem.simps set_map)

lemma install_configured_chart_wf:
  "wf_chart chart \<Longrightarrow>
     install_configured_chart w chart s = check_call w (chart_cmd (helm_bin s) chart) s"
proof (cases chart)
  case (PDict kvs)
  assume "wf_chart chart"
  with PDict have k: "''name'' \<in> set (map fst kvs)" "''release'' \<in> set (map fst kvs)"
    "''namespace'' \<in> set (map fst kvs)"
    by (simp_all add: wf_chart_def)
  show ?thesis
  proof (cases "''overrides'' \<in> set (map fst kvs)")
    case True
    with PDict k show ?thesis
      by (simp add: install_configured_chart_def install_chart_def chart_cmd_def
            getitem_present Let_def del: getitem.simps set_map)
  next
    case False
    with PDict k show ?thesis
      by (simp add: install_configured_chart_def install_chart_def chart_cmd_def
            getitem_present getitem_absent Let_def del: getitem.simps set_map)
  qed
qed (simp_all add: wf_chart_def)

lemma check_call_succeeded:
  "check_call w argv s =
     (if succeeded (subprocess w (steps s) argv) then (Return (), after_exec w argv s)
      else (Raise (call_error argv (subprocess w (steps s) argv)), after_exec w argv s))"
  by (simp add: check_call_eq split: proc.splits)

lemma fold_after_exec_fields [simp]:
  "trace (fold (after_exec w) cmds s) = trace s @ map Exec cmds"
  "steps (fold (after_exec w) cmds s) = steps s + length cmds"
  "helm_bin (fold (after_exec w) cmds s) = helm_bin s"
  by (induction cmds arbitrary: s) simp_all

lemma for_each_append: "for_each body (xs @ ys) = seq (for_each body xs) (for_each body ys)"
proof (induction xs)
  case Nil
  show ?case by simp
next
  case (Cons x xs)
  then show ?case
    by (simp add: seq_def and_then_assoc)
qed

lemma for_each_map: "for_each body (map g xs) = for_each (\<lambda>x. body (g x)) xs"
  by (induction xs) simp_all

lemma for_each_calls_succeed:
  assumes "\<And>x s. x \<in> set xs \<Longrightarrow> body x s = check_call w (c (helm_bin s) x) s"
    and "\<forall>j<length xs. succeeded (subprocess w (steps s + j) (c (helm_bin s) (xs ! j)))"
  shows "for_each body xs s = (Return (), fold (after_exec w) (map (c (helm_bin s)) xs) s)"
  using assms
proof (induction xs arbitrary: s)
  case Nil
  show ?case by (simp add: return_def)
next
  case (Cons x xs)
  let ?s1 = "after_exec w (c (helm_bin s) x) s"
  from Cons.prems(2) have ok: "succeeded (subprocess w (steps s) (c (helm_bin s) x))"
    by (auto dest: spec [of _ 0])
  have rest: "\<forall>j<length xs. succeeded (subprocess w (steps ?s1 + j) (c (helm_bin ?s1) (xs ! j)))"
  proof (intro allI impI)
    fix j assume "j < length xs"
    with Cons.prems(2) have "succeeded (subprocess w (steps s + Suc j)
        (c (helm_bin s) ((x # xs) ! Suc j)))"
      by (auto dest: spec [of _ "Suc j"])
    then show "succeeded (subprocess w (steps ?s1 + j) (c (helm_bin ?s1) (xs ! j)))"
      by simp
  qed
  have "for_each body xs ?s1 = (Return (), fold (after_exec w) (map (c (helm_bin ?s1)) xs) ?s1)"
    using Cons.prems(1) rest by (intro Cons.IH) simp_all
  with ok Cons.prems(1) [of x s] show ?case
    by (simp add: seq_def and_then_def check_call_succeeded)
qed

lemma for_each_calls_fail:
  assumes "\<And>x s. x \<in> set xs \<Longrightarrow> body x s = check_call w (c (helm_bin s) x) s"
    and "i < length xs"
    and "\<forall>j<i. succeeded (subprocess w (steps s + j) (c (helm_bin s) (xs ! j)))"
    and "\<not> succeeded (subprocess w (steps s + i) (c (helm_bin s) (xs ! i)))"
  shows "for_each body xs s
           = (Raise (call_error (c (helm_bin s) (xs ! i))
                       (subprocess w (steps s + i) (c (helm_bin s) (xs ! i)))),
              fold (after_exec w) (map (c (helm_bin s)) (take (Suc i) xs)) s)"
  using assms
proof (induction xs arbitrary: s i)
  case Nil
  then show ?case by simp
next
  case (Cons x xs)
  let ?s1 = "after_exec w (c (helm_bin s) x) s"
  show ?case
  proof (cases i)
    case 0
    with Cons.prems(4) Cons.prems(1) [of x s] show ?thesis
      by (simp add: seq_def and_then_def check_call_succeeded)
  next
    case (Suc k)
    with Cons.prems(3) have ok: "succeeded (subprocess w (steps s) (c (helm_bin s) x))"
      by (auto dest: spec [of _ 0])
    have k: "k < length xs" using Suc Cons.prems(2) by simp
    have before: "\<forall>j<k. succeeded (subprocess w (steps ?s1 + j) (c (helm_bin ?s1) (xs ! j)))"
    proof (intro allI impI)
      fix j assume "j < k"
      with Cons.prems(3) Suc have "succeeded (subprocess w (steps s + Suc j)
          (c (helm_bin s) ((x # xs) ! Suc j)))"
        by (auto dest: spec [of _ "Suc j"])
      then show "succeeded (subprocess w (steps ?s1 + j) (c (helm_bin ?s1) (xs ! j)))"
        by simp
    qed
    have at: "\<not> succeeded (subprocess w (steps ?s1 + k) (c (helm_bin ?s1) (xs ! k)))"
      using Cons.prems(4) Suc by simp
    have "for_each body xs ?s1
           = (Raise (call_error (c (helm_bin ?s1) (xs ! k))
                       (subprocess w (steps ?s1 + k) (c (helm_bin ?s1) (xs ! k)))),
              fold (after_exec w) (map (c (helm_bin ?s1)) (take (Suc k) xs)) ?s1)"
      using Cons.prems(1) k before at by (intro Cons.IH) simp_all
    with ok Suc Cons.prems(1) [of x s] show ?thesis
      by (simp add: seq_def and_then_def check_call_succeeded)
  qed
qed

text \<open>
  The entries under an optional key of the configuration: the list stored there, none when
  the key is absent.
\<close>

definition configured :: "pyval \<Rightarrow> string \<Rightarrow> pyval list \<Rightarrow> bool" where
  "configured config key items \<longleftrightarrow>
     (if py_in key config = Inr True then getitem config key = Inr (PList items)
      else py_in key config = Inr False \<and> items = [])"

lemma add_chart_repos_configured:
  "configured config ''chartRepos'' repos \<Longrightarrow> add_chart_repos w config = for_each (add_repo w) repos"
  by (auto simp: configured_def add_chart_repos_def split: if_splits)

lemma install_charts_configured:
  "configured config ''charts'' charts
     \<Longrightarrow> install_charts w config = for_each (install_configured_chart w) charts"
  by (auto simp: configured_def install_charts_def split: if_splits)

lemma install_loops:
  assumes "configured config ''chartRepos'' repos" and "configured config ''charts'' charts"
  shows "seq (add_chart_repos w config) (install_charts w config)
           = for_each (case_sum (add_repo w) (install_configured_chart w))
               (map Inl repos @ map Inr charts)"
  using assms
  by (simp add: add_chart_repos_configured install_charts_configured for_each_append
        for_each_map)

text \<open>
  A configuration with two chart repositories and three charts, and a world in which the
  installation of the release \<^verbatim>\<open>db\<close> exits with status 1.
\<close>

definition charts_config :: pyval where
  "charts_config = PDict
     [(''paths'', PDict
         [(''sshPublicKeyPath'', PStr ''id_rsa.pub''),
          (''terraformTemplatePath'', PStr ''net.tf.j2''),
          (''kopsTemplatePath'', PStr ''kops.j2''),
          (''outputDir'', PStr ''out''),
          (''tillerPermissions'', PStr ''tiller.yaml'')]),
      (''clusterConfig'', PDict example_cluster_config),
      (''chartRepos'', PList
         [PDict [(''name'', PStr ''stable''), (''url'', PStr ''https://charts.example/stable'')],
          PDict [(''name'', PStr ''incubator''),
                 (''url'', PStr ''https://charts.example/incubator'')]]),
      (''charts'', PList
         [PDict [(''name'', PStr ''stable/nginx-ingress''), (''release'', PStr ''ingress''),
                 (''namespace'', PStr ''kube-system''),
                 (''overrides'', PStr ''rbac.create=true'')],
          PDict [(''name'', PStr ''stable/postgresql''), (''release'', PStr ''db''),
                 (''namespace'', PStr ''data'')],
          PDict [(''name'', PStr ''stable/prometheus''), (''release'', PStr ''monitor''),
                 (''namespace'', PStr ''monitoring'')]])]"

definition db_install_fails :: world where
  "db_install_fails =
     calm\<lparr>subprocess := (\<lambda>_ argv.
       if take 4 argv = [PStr ''helm'', PStr ''install'', PStr ''--name'', PStr ''db'']
       then Returned 1 [] else Returned 0 ''ok'')\<rparr>"

text \<open>The two commands that set the tiller up, and the outcome of the set-up.\<close>

definition tiller_manifest_argv :: "state \<Rightarrow> pyval \<Rightarrow> pyval list" where
  "tiller_manifest_argv s manifest = [kubectl_bin s, PStr ''apply'', PStr ''-f'', manifest]"

definition tiller_init_argv :: "state \<Rightarrow> pyval list" where
  "tiller_init_argv s = [helm_bin s, PStr ''init'', PStr ''--service-account'', PStr ''tiller'']"

lemma init_tiller_apply_fails:
  assumes "getitem config ''paths'' = Inr paths"
    and "getitem paths ''tillerPermissions'' = Inr manifest"
    and "\<not> succeeded (subprocess w (steps s) (tiller_manifest_argv s manifest))"
  shows "init_tiller w config t s
           = (Raise (call_error (tiller_manifest_argv s manifest)
                       (subprocess w (steps s) (tiller_manifest_argv s manifest))),
              after_exec w (tiller_manifest_argv s manifest) s)"
  using assms
  by (simp add: init_tiller_def item2_def seq_def and_then_def check_call_succeeded
        tiller_manifest_argv_def gets_def return_def)

lemma wait_tiller_up:
  assumes "tiller_up w s" and "0 < t"
  shows "wait_tiller_available w t s = (Return (), after_exec w (tiller_probe_argv s) s)"
proof -
  have "now s < now s + t * 60 * int second"
    using assms(2) by (simp add: second_def)
  then have "wait_tiller_loop w (now s + t * 60 * int second) s
               = (True, after_exec w (tiller_probe_argv s) s)"
    using assms(1) by (subst wait_tiller_loop.simps) (simp add: tiller_attempt_eq)
  then show ?thesis
    by (simp add: wait_tiller_available_def)
qed

lemma init_tiller_up:
  assumes "getitem config ''paths'' = Inr paths"
    and "getitem paths ''tillerPermissions'' = Inr manifest"
    and "s1 = after_exec w (tiller_manifest_argv s manifest) s"
    and "s2 = after_exec w (tiller_init_argv s) s1"
    and "succeeded (subprocess w (steps s) (tiller_manifest_argv s manifest))"
    and "succeeded (subprocess w (Suc (steps s)) (tiller_init_argv s))"
    and "tiller_up w s2" and "0 < t"
  shows "init_tiller w config t s = (Return (), after_exec w (tiller_probe_argv s2) s2)"
  using assms wait_tiller_up [of w s2 t]
  by (simp add: init_tiller_def item2_def seq_def and_then_def check_call_succeeded
        tiller_manifest_argv_def tiller_init_argv_def gets_def return_def)

section \<open>Properties of the command flows\<close>

subsection \<open>Destroy: ordering and abort\<close>

text \<open>
  Claim C3. In the destroy flow of a configuration that names the cluster, its state
  location and the output directory, the child processes started are the cluster delete
  alone or the cluster delete followed by the infrastructure destroy (none at all when the
  user declines), so the infrastructure destroy never comes first. With \<^verbatim>\<open>--yes\<close> no
  confirmation prompt is shown. Whether the flow got past the confirmation by \<^verbatim>\<open>--yes\<close>
  or by the user's yes: when the cluster delete exits non-zero, the delete is the only child
  process, a message goes to the error stream and the process exits with status 1; the
  same holds when the delete cannot be launched; and when the delete succeeds, the
  infrastructure destroy is the next and last child process. When the user does not say
  yes, the flow ends with \<open>Abort\<close> after the question.
\<close>

theorem destroy_order_and_abort:
  assumes "getitem config ''clusterConfig'' = Inr cc"
    and "getitem cc ''FullyQualifiedName'' = Inr name"
    and "getitem cc ''ConfigBaseURL'' = Inr url"
    and "getitem config ''paths'' = Inr paths"
    and "getitem paths ''outputDir'' = Inr out"
    and "delete = [kops_bin s, PStr ''delete'', PStr ''cluster'', name, PStr ''--state'', url,
                   PStr ''--yes'']"
    and "tf_destroy = [terraform_bin s, PStr ''destroy'', PStr ''-force'', out]"
    and "question = ''Are you sure you want to destroy '' @ fmt w name @ ''?''"
    and "destroy w config yes s = (r, s')"
  shows "(\<exists>evs. trace s' = trace s @ evs
            \<and> execs_of evs \<in> {[], [delete], [delete, tf_destroy]}
            \<and> (yes \<longrightarrow> (\<forall>q. Prompt q \<notin> set evs)))
       \<and> (\<forall>rc out. yes \<and> subprocess w (steps s) delete = Returned rc out \<and> rc \<noteq> 0
            \<longrightarrow> r = SysExit 1
              \<and> execs_of (trace s') = execs_of (trace s) @ [delete]
              \<and> stderr_of (trace s') = stderr_of (trace s)
                   @ [''Destroy cluster failed: '' @ str_exn w (CalledProcessError delete rc)])
       \<and> (\<forall>rc out. \<not> yes \<and> confirm_answer w (steps s) question = Some True
                  \<and> subprocess w (Suc (steps s)) delete = Returned rc out \<and> rc \<noteq> 0
            \<longrightarrow> r = SysExit 1
              \<and> trace s' = trace s @ [Prompt question, Exec delete,
                   Stderr (''Destroy cluster failed: ''
                           @ str_exn w (CalledProcessError delete rc))])
       \<and> (\<forall>e. subprocess w (if yes then steps s else Suc (steps s)) delete = LaunchFailed e
                \<and> (yes \<or> confirm_answer w (steps s) question = Some True)
            \<longrightarrow> r = (if is_Exception e then SysExit 1 else Raise e)
              \<and> execs_of (trace s') = execs_of (trace s) @ [delete])
       \<and> (\<forall>out. subprocess w (if yes then steps s else Suc (steps s)) delete = Returned 0 out
                \<and> (yes \<or> confirm_answer w (steps s) question = Some True)
            \<longrightarrow> execs_of (trace s') = execs_of (trace s) @ [delete, tf_destroy])
       \<and> (\<not> yes \<and> confirm_answer w (steps s) question \<noteq> Some True
            \<longrightarrow> r = Raise Abort \<and> trace s' = trace s @ [Prompt question])"
  using assms
  by (auto simp: destroy_def destroy_steps_def kops_destroy_cluster_def terraform_destroy_def
        run_defs split: proc.splits if_splits option.splits)

theorem destroy_order_and_abort_witness:
  "fst (destroy delete_fails example_config True (initial 0)) = SysExit 1
   \<and> trace (snd (destroy delete_fails example_config True (initial 0)))
       = [Exec [PStr ''kops'', PStr ''delete'', PStr ''cluster'', PStr ''dev.k8s'',
                PStr ''--state'', PStr ''s3://kops'', PStr ''--yes''],
          Stderr ''Destroy cluster failed: failed'']
   \<and> fst (destroy delete_fails example_config False (initial 0)) = SysExit 1
   \<and> trace (snd (destroy delete_fails example_config False (initial 0)))
       = [Prompt ''Are you sure you want to destroy dev.k8s?'',
          Exec [PStr ''kops'', PStr ''delete'', PStr ''cluster'', PStr ''dev.k8s'',
                PStr ''--state'', PStr ''s3://kops'', PStr ''--yes''],
          Stderr ''Destroy cluster failed: failed'']
   \<and> execs_of (trace (snd (destroy calm example_config False (initial 0))))
       = [[PStr ''kops'', PStr ''delete'', PStr ''cluster'', PStr ''dev.k8s'',
           PStr ''--state'', PStr ''s3://kops'', PStr ''--yes''],
          [PStr ''terraform'', PStr ''destroy'', PStr ''-force'', PStr ''out'']]"
proof -
  let ?paths = "PDict [(''sshPublicKeyPath'', PStr ''id_rsa.pub''),
          (''terraformTemplatePath'', PStr ''net.tf.j2''),
          (''kopsTemplatePath'', PStr ''kops.j2''),
          (''outputDir'', PStr ''out''),
          (''tillerPermissions'', PStr ''tiller.yaml'')]"
  let ?del = "[PStr ''kops'', PStr ''delete'', PStr ''cluster'', PStr ''dev.k8s'', PStr ''--state'',
           PStr ''s3://kops'', PStr ''--yes'']"
  let ?q = "''Are you sure you want to destroy dev.k8s?''"
  have h1: "getitem example_config ''clusterConfig'' = Inr (PDict example_cluster_config)"
    by (simp add: example_config_def example_cluster_config_def)
  have h2: "getitem (PDict example_cluster_config) ''FullyQualifiedName'' = Inr (PStr ''dev.k8s'')"
    by (simp add: example_cluster_config_def)
  have h3: "getitem (PDict example_cluster_config) ''ConfigBaseURL'' = Inr (PStr ''s3://kops'')"
    by (simp add: example_cluster_config_def)
  have h4: "getitem example_config ''paths'' = Inr ?paths"
    by (simp add: example_config_def)
  have h5: "getitem ?paths ''outputDir'' = Inr (PStr ''out'')" by simp
  have h6: "?del = [kops_bin (initial 0), PStr ''delete'', PStr ''cluster'', PStr ''dev.k8s'',
     PStr ''--state'', PStr ''s3://kops'', PStr ''--yes'']"
    by simp
  have h7: "[PStr ''terraform'', PStr ''destroy'', PStr ''-force'', PStr ''out'']
     = [terraform_bin (initial 0), PStr ''destroy'', PStr ''-force'', PStr ''out'']"
    by simp
  have q: "?q = ''Are you sure you want to destroy '' @ fmt w (PStr ''dev.k8s'') @ ''?''" for w
    by simp
  have fails: "subprocess delete_fails n ?del = Returned 2 []" for n
    by (simp add: delete_fails_def calm_def)
  have works: "subprocess calm n ?del = Returned 0 ''ok''" for n
    by (simp add: calm_def)
  have yes: "confirm_answer delete_fails n ?q = Some True" "confirm_answer calm n ?q = Some True"
    for n
    by (simp_all add: delete_fails_def calm_def)
  have str: "str_exn delete_fails (CalledProcessError ?del 2) = ''failed''"
    by (simp add: delete_fails_def calm_def)
  note inst = destroy_order_and_abort [OF h1 h2 h3 h4 h5 h6 h7 q surjective_pairing]
  from inst [where w = delete_fails and yes = True] fails [of 0] str
  have a: "fst (destroy delete_fails example_config True (initial 0)) = SysExit 1"
    by simp
  from inst [where w = delete_fails and yes = True] fails [of 0]
  obtain evs where evs: "trace (snd (destroy delete_fails example_config True (initial 0))) = evs"
      "execs_of evs = [?del]" "stderr_of evs = [''Destroy cluster failed: failed'']"
    using str by auto
  from inst [where w = delete_fails and yes = False] fails [of 1] yes(1) [of 0] str
  have b: "fst (destroy delete_fails example_config False (initial 0)) = SysExit 1"
    "trace (snd (destroy delete_fails example_config False (initial 0)))
       = [Prompt ?q, Exec ?del, Stderr ''Destroy cluster failed: failed'']"
    by simp_all
  from inst [where w = calm and yes = False] works [of 1] yes(2) [of 0]
  have c: "execs_of (trace (snd (destroy calm example_config False (initial 0))))
       = [?del, [PStr ''terraform'', PStr ''destroy'', PStr ''-force'', PStr ''out'']]"
    by simp
  have d: "trace (snd (destroy delete_fails example_config True (initial 0)))
       = [Exec ?del, Stderr ''Destroy cluster failed: failed'']"
    by (simp add: destroy_def destroy_steps_def kops_destroy_cluster_def terraform_destroy_def
          run_defs example_config_def delete_fails_def calm_def after_exec_def)
  from a b c d show ?thesis by simp
qed

subsection \<open>Enrichment precedence\<close>

text \<open>
  Claim C1. Let \<open>field\<close> be one of \<^verbatim>\<open>VPCID\<close>, \<^verbatim>\<open>PublicNATGatewayID\<close>, \<^verbatim>\<open>NodeSubnetID\<close>,
  \<^verbatim>\<open>PublicSubnetID\<close>. If the cluster configuration has the field when
  \<open>generate_kops_config\<close> starts, it has the same value afterwards, however the call ends.
  If the field is absent and the call returns, the field holds the identifier of the state
  file's entry named by the convention: \<^verbatim>\<open>aws_vpc.<ShortName>\<close> for the VPC, the resource
  type with the concatenation of region and availability zone for the other three.
\<close>

theorem enrichment_precedence:
  assumes "cluster_config s = PDict kvs"
    and "generate_kops_config w tpl path out s = (r, s')"
    and "field \<in> {''VPCID'', ''PublicNATGatewayID'', ''NodeSubnetID'', ''PublicSubnetID''}"
  shows "(\<forall>v. map_of kvs field = Some v \<longrightarrow> getitem (cluster_config s') field = Inr v)
       \<and> (map_of kvs field = None \<and> (\<exists>p. r = Return p) \<longrightarrow>
            (\<exists>tf v. load_json_file w (steps s) path = Inr tf
               \<and> state_entry_id tf (state_entry_name w (PDict kvs) field) = Inr v
               \<and> getitem (cluster_config s') field = Inr v))"
proof (intro conjI allI impI)
  fix v assume "map_of kvs field = Some v"
  with assms(1) have "getitem (cluster_config s) field = Inr v" by simp
  moreover have "keeps_item field s s'"
    using generate_kops_config_keeps assms(2) by (rule preservesD)
  ultimately show "getitem (cluster_config s') field = Inr v"
    by (simp add: keeps_item_def)
next
  assume a: "map_of kvs field = None \<and> (\<exists>p. r = Return p)"
  then obtain p where r: "r = Return p" by blast
  from assms(2) [unfolded r generate_kops_config_def] obtain s1 where
    e: "enrich_from_state w path s = (Return (), s1)"
    and k: "seq (env_get_template w tpl)
       (let kops_config_path = fmt w out @ ''/kops.config''
        in seq (open_for_write w kops_config_path)
          (and_then (gets cluster_config) (\<lambda>cfg.
           and_then (template_render w tpl cfg) (\<lambda>rendered.
           seq (file_write kops_config_path rendered)
               (return kops_config_path))))) s1 = (Return p, s')"
    by (rule seq_ReturnE) auto
  have "same_config s1 s'"
    using kops_config_written k by (rule preservesD)
  then have "cluster_config s' = cluster_config s1"
    by (simp add: same_config_def)
  with enrich_success [OF assms(1) e assms(3)] a
  show "\<exists>tf v. load_json_file w (steps s) path = Inr tf
               \<and> state_entry_id tf (state_entry_name w (PDict kvs) field) = Inr v
               \<and> getitem (cluster_config s') field = Inr v"
    by simp
qed

theorem enrichment_precedence_witness:
  "getitem (cluster_config (snd (generate_kops_config calm (PStr ''kops.j2'')
              ''out/terraform.tfstate'' (PStr ''out'')
              ((initial 0)\<lparr>cluster_config := PDict example_cluster_config\<rparr>))))
     ''VPCID'' = Inr (PStr ''vpc-1'')
   \<and> getitem (cluster_config (snd (generate_kops_config calm (PStr ''kops.j2'')
              ''out/terraform.tfstate'' (PStr ''out'')
              ((initial 0)\<lparr>cluster_config :=
                  PDict ((''VPCID'', PStr ''vpc-mine'') # example_cluster_config)\<rparr>))))
     ''VPCID'' = Inr (PStr ''vpc-mine'')"
proof -
  let ?s = "(initial 0)\<lparr>cluster_config := PDict example_cluster_config\<rparr>"
  let ?t = "(initial 0)\<lparr>cluster_config :=
              PDict ((''VPCID'', PStr ''vpc-mine'') # example_cluster_config)\<rparr>"
  let ?gen = "generate_kops_config calm (PStr ''kops.j2'') ''out/terraform.tfstate'' (PStr ''out'')"
  have ret: "fst (?gen ?s) = Return ''out/kops.config''"
    by (simp add: generate_kops_config_def enrich_from_state_def example_cluster_config_def
          calm_def example_tfstate_def initial_def run_defs json_load_file_def lift_def
          cluster_config_item_def update_cluster_config_def fill_from_state_def on_value_def
          resource_id_def env_get_template_def open_for_write_def template_render_def
          file_write_def)
  have absent: "map_of example_cluster_config ''VPCID'' = None"
    by (simp add: example_cluster_config_def)
  have 1: "getitem (cluster_config (snd (?gen ?s))) ''VPCID'' = Inr (PStr ''vpc-1'')"
    using enrichment_precedence [of ?s example_cluster_config calm "PStr ''kops.j2''"
        "''out/terraform.tfstate''" "PStr ''out''" "fst (?gen ?s)" "snd (?gen ?s)" "''VPCID''"]
      ret absent
    by (auto simp: state_entry_id_def state_entry_name_def item_or_none_def on_value_def
          calm_def example_tfstate_def example_cluster_config_def initial_def)
  have 2: "getitem (cluster_config (snd (?gen ?t))) ''VPCID'' = Inr (PStr ''vpc-mine'')"
    using enrichment_precedence [of ?t "(''VPCID'', PStr ''vpc-mine'') # example_cluster_config"
        calm "PStr ''kops.j2''" "''out/terraform.tfstate''" "PStr ''out''" "fst (?gen ?t)"
        "snd (?gen ?t)" "''VPCID''"]
    by simp
  from 1 2 show ?thesis by simp
qed

subsection \<open>Pollers: every probe failure is tolerated, the time-out is fatal\<close>

text \<open>
  Claim C6. In both pollers the outcome is a return or \<^verbatim>\<open>sys.exit(1)\<close>, never an
  exception, whatever the probes do. A pass through the loop body whose probe is not up
  (non-zero exit, launch failure or interrupt, undecodable output, output without the
  server version) is a failed pass: the probe, the "unavailable" message, a sleep of the
  interval (30 and 15 seconds); a pass whose probe is up is the probe alone. A run is some
  number \<open>n\<close> of failed passes, each begun before the deadline with a probe that was not
  up, and then: if the next probe is up and the deadline has not passed, that probe and a
  normal return; otherwise the deadline has passed, the poller's own message goes to the
  error stream and the process exits with status 1.
\<close>

theorem pollers_swallow_and_time_out:
  assumes "wait_cluster_available w cluster_timeout s = (r, s')"
    and "wait_tiller_available w tiller_timeout t = (q, t')"
  shows "(r = Return () \<or> r = SysExit 1)
       \<and> (\<exists>n. trace s' = trace s
                  @ concat (replicate n (failed_round (cluster_probe_argv s)
                       ''Cluster unavailable. Waiting 30 seconds before retrying.'' 30))
                  @ (if r = Return () then [Exec (cluster_probe_argv s)]
                     else [Stderr ''Kubernetes server could not be contacted.'']))
       \<and> (r = SysExit 1 \<longrightarrow> now s + cluster_timeout * 60 * int second \<le> now s')
       \<and> (q = Return () \<or> q = SysExit 1)
       \<and> (\<exists>n. trace t' = trace t
                  @ concat (replicate n (failed_round (tiller_probe_argv t)
                       ''Helm Tiller unavailable. Waiting 15 seconds before retrying.'' 15))
                  @ (if q = Return () then [Exec (tiller_probe_argv t)]
                     else [Stderr ''Helm tiller could not be contacted.'']))
       \<and> (q = SysExit 1 \<longrightarrow> now t + tiller_timeout * 60 * int second \<le> now t')
       \<and> (\<exists>n. (\<forall>k<n. now ((cluster_failed_pass w ^^ k) s)
                          < now s + cluster_timeout * 60 * int second
                        \<and> \<not> cluster_up w ((cluster_failed_pass w ^^ k) s))
              \<and> (if cluster_up w ((cluster_failed_pass w ^^ n) s)
                     \<and> now ((cluster_failed_pass w ^^ n) s)
                         < now s + cluster_timeout * 60 * int second
                  then r = Return ()
                     \<and> s' = after_exec w (cluster_probe_argv s) ((cluster_failed_pass w ^^ n) s)
                  else r = SysExit 1
                     \<and> now s + cluster_timeout * 60 * int second
                         \<le> now ((cluster_failed_pass w ^^ n) s)
                     \<and> s' = ((cluster_failed_pass w ^^ n) s)
                           \<lparr>trace := trace ((cluster_failed_pass w ^^ n) s)
                              @ [Stderr ''Kubernetes server could not be contacted.'']\<rparr>))
       \<and> (\<exists>n. (\<forall>k<n. now ((tiller_failed_pass w ^^ k) t)
                          < now t + tiller_timeout * 60 * int second
                        \<and> \<not> tiller_up w ((tiller_failed_pass w ^^ k) t))
              \<and> (if tiller_up w ((tiller_failed_pass w ^^ n) t)
                     \<and> now ((tiller_failed_pass w ^^ n) t)
                         < now t + tiller_timeout * 60 * int second
                  then q = Return ()
                     \<and> t' = after_exec w (tiller_probe_argv t) ((tiller_failed_pass w ^^ n) t)
                  else q = SysExit 1
                     \<and> now t + tiller_timeout * 60 * int second
                         \<le> now ((tiller_failed_pass w ^^ n) t)
                     \<and> t' = ((tiller_failed_pass w ^^ n) t)
                           \<lparr>trace := trace ((tiller_failed_pass w ^^ n) t)
                              @ [Stderr ''Helm tiller could not be contacted.'']\<rparr>))
       \<and> (\<forall>u. cluster_attempt w u
                = (if cluster_up w u then (True, after_exec w (cluster_probe_argv u) u)
                   else (False, cluster_failed_pass w u)))
       \<and> (\<forall>u. tiller_attempt w u
                = (if tiller_up w u then (True, after_exec w (tiller_probe_argv u) u)
                   else (False, tiller_failed_pass w u)))"
proof -
  let ?cd = "now s + cluster_timeout * 60 * int second"
  let ?td = "now t + tiller_timeout * 60 * int second"
  obtain b s1 where c: "wait_cluster_loop w ?cd s = (b, s1)"
    by (cases "wait_cluster_loop w ?cd s")
  obtain d t1 where h: "wait_tiller_loop w ?td t = (d, t1)"
    by (cases "wait_tiller_loop w ?td t")
  from assms(1) c have r: "r = (if b then Return () else SysExit 1)"
    "s' = (if b then s1
           else s1\<lparr>trace := trace s1 @ [Stderr ''Kubernetes server could not be contacted.'']\<rparr>)"
    by (auto simp: wait_cluster_available_def Let_def seq_def and_then_def print_err_def emit_def
          sys_exit_def split: if_splits)
  from assms(2) h have q: "q = (if d then Return () else SysExit 1)"
    "t' = (if d then t1
           else t1\<lparr>trace := trace t1 @ [Stderr ''Helm tiller could not be contacted.'']\<rparr>)"
    by (auto simp: wait_tiller_available_def Let_def seq_def and_then_def print_err_def emit_def
          sys_exit_def split: if_splits)
  from wait_cluster_loop_run [OF c] obtain n where
    n1: "\<forall>k<n. now ((cluster_failed_pass w ^^ k) s) < ?cd
                  \<and> \<not> cluster_up w ((cluster_failed_pass w ^^ k) s)"
    and n2: "if b then now ((cluster_failed_pass w ^^ n) s) < ?cd
                     \<and> cluster_up w ((cluster_failed_pass w ^^ n) s)
                     \<and> s1 = after_exec w (cluster_probe_argv s) ((cluster_failed_pass w ^^ n) s)
               else ?cd \<le> now ((cluster_failed_pass w ^^ n) s)
                     \<and> s1 = (cluster_failed_pass w ^^ n) s"
    by blast
  from wait_tiller_loop_run [OF h] obtain m where
    m1: "\<forall>k<m. now ((tiller_failed_pass w ^^ k) t) < ?td
                  \<and> \<not> tiller_up w ((tiller_failed_pass w ^^ k) t)"
    and m2: "if d then now ((tiller_failed_pass w ^^ m) t) < ?td
                     \<and> tiller_up w ((tiller_failed_pass w ^^ m) t)
                     \<and> t1 = after_exec w (tiller_probe_argv t) ((tiller_failed_pass w ^^ m) t)
               else ?td \<le> now ((tiller_failed_pass w ^^ m) t)
                     \<and> t1 = (tiller_failed_pass w ^^ m) t"
    by blast
  note cp = cluster_passes [where w = w and n = n and s = s]
  note tp = tiller_passes [where w = w and n = m and s = t]
  have c1: "r = Return () \<or> r = SysExit 1" using r by simp
  have c2: "\<exists>n. trace s' = trace s
                  @ concat (replicate n (failed_round (cluster_probe_argv s)
                       ''Cluster unavailable. Waiting 30 seconds before retrying.'' 30))
                  @ (if r = Return () then [Exec (cluster_probe_argv s)]
                     else [Stderr ''Kubernetes server could not be contacted.''])"
    using r n2 cp by (intro exI [of _ n]) (auto split: if_splits)
  have c3: "r = SysExit 1 \<longrightarrow> ?cd \<le> now s'"
    using r n2 by (auto split: if_splits)
  have c4: "\<exists>n. (\<forall>k<n. now ((cluster_failed_pass w ^^ k) s) < ?cd
                        \<and> \<not> cluster_up w ((cluster_failed_pass w ^^ k) s))
              \<and> (if cluster_up w ((cluster_failed_pass w ^^ n) s)
                     \<and> now ((cluster_failed_pass w ^^ n) s) < ?cd
                  then r = Return ()
                     \<and> s' = after_exec w (cluster_probe_argv s) ((cluster_failed_pass w ^^ n) s)
                  else r = SysExit 1
                     \<and> ?cd \<le> now ((cluster_failed_pass w ^^ n) s)
                     \<and> s' = ((cluster_failed_pass w ^^ n) s)
                           \<lparr>trace := trace ((cluster_failed_pass w ^^ n) s)
                              @ [Stderr ''Kubernetes server could not be contacted.'']\<rparr>)"
    using r n1 n2 by (intro exI [of _ n]) (auto split: if_splits)
  have t1: "q = Return () \<or> q = SysExit 1" using q by simp
  have t2: "\<exists>n. trace t' = trace t
                  @ concat (replicate n (failed_round (tiller_probe_argv t)
                       ''Helm Tiller unavailable. Waiting 15 seconds before retrying.'' 15))
                  @ (if q = Return () then [Exec (tiller_probe_argv t)]
                     else [Stderr ''Helm tiller could not be contacted.''])"
    using q m2 tp by (intro exI [of _ m]) (auto split: if_splits)
  have t3: "q = SysExit 1 \<longrightarrow> ?td \<le> now t'"
    using q m2 by (auto split: if_splits)
  have t4: "\<exists>n. (\<forall>k<n. now ((tiller_failed_pass w ^^ k) t) < ?td
                        \<and> \<not> tiller_up w ((tiller_failed_pass w ^^ k) t))
              \<and> (if tiller_up w ((tiller_failed_pass w ^^ n) t)
                     \<and> now ((tiller_failed_pass w ^^ n) t) < ?td
                  then q = Return ()
                     \<and> t' = after_exec w (tiller_probe_argv t) ((tiller_failed_pass w ^^ n) t)
                  else q = SysExit 1
                     \<and> ?td \<le> now ((tiller_failed_pass w ^^ n) t)
                     \<and> t' = ((tiller_failed_pass w ^^ n) t)
                           \<lparr>trace := trace ((tiller_failed_pass w ^^ n) t)
                              @ [Stderr ''Helm tiller could not be contacted.'']\<rparr>)"
    using q m1 m2 by (intro exI [of _ m]) (auto split: if_splits)
  have a1: "\<forall>u. cluster_attempt w u
                = (if cluster_up w u then (True, after_exec w (cluster_probe_argv u) u)
                   else (False, cluster_failed_pass w u))"
    by (simp add: cluster_attempt_eq cluster_failed_pass_def)
  have a2: "\<forall>u. tiller_attempt w u
                = (if tiller_up w u then (True, after_exec w (tiller_probe_argv u) u)
                   else (False, tiller_failed_pass w u))"
    by (simp add: tiller_attempt_eq tiller_failed_pass_def)
  from c1 c2 c3 t1 t2 t3 c4 t4 a1 a2 show ?thesis by blast
qed

theorem pollers_swallow_and_time_out_witness:
  "fst (wait_cluster_available slow_start 5 (initial 0)) = Return ()
   \<and> trace (snd (wait_cluster_available slow_start 5 (initial 0)))
       = [Exec [PStr ''kubectl'', PStr ''version'', PStr ''--output'', PStr ''json''],
          Stdout ''Cluster unavailable. Waiting 30 seconds before retrying.'', Sleep 30,
          Exec [PStr ''kubectl'', PStr ''version'', PStr ''--output'', PStr ''json''],
          Stdout ''Cluster unavailable. Waiting 30 seconds before retrying.'', Sleep 30,
          Exec [PStr ''kubectl'', PStr ''version'', PStr ''--output'', PStr ''json'']]
   \<and> fst (wait_tiller_available no_helm 1 (initial 0)) = SysExit 1
   \<and> trace (snd (wait_tiller_available no_helm 1 (initial 0)))
       = [Exec [PStr ''helm'', PStr ''version'', PStr ''--server''],
          Stdout ''Helm Tiller unavailable. Waiting 15 seconds before retrying.'', Sleep 15,
          Exec [PStr ''helm'', PStr ''version'', PStr ''--server''],
          Stdout ''Helm Tiller unavailable. Waiting 15 seconds before retrying.'', Sleep 15,
          Exec [PStr ''helm'', PStr ''version'', PStr ''--server''],
          Stdout ''Helm Tiller unavailable. Waiting 15 seconds before retrying.'', Sleep 15,
          Exec [PStr ''helm'', PStr ''version'', PStr ''--server''],
          Stdout ''Helm Tiller unavailable. Waiting 15 seconds before retrying.'', Sleep 15,
          Stderr ''Helm tiller could not be contacted.'']"
proof -
  let ?s1 = "cluster_failed_pass slow_start (initial 0)"
  let ?s2 = "cluster_failed_pass slow_start ?s1"
  have el: "elapsed slow_start n = 0" "elapsed no_helm n = 0" for n
    by (simp_all add: slow_start_def no_helm_def calm_def)
  have up: "\<not> cluster_up slow_start (initial 0)" "\<not> cluster_up slow_start ?s1"
    "cluster_up slow_start ?s2"
    by (simp_all add: cluster_up_def slow_start_def calm_def cluster_probe_argv_def)
  have c2: "wait_cluster_loop slow_start 300000000 ?s2
      = (True, after_exec slow_start (cluster_probe_argv ?s2) ?s2)"
    using up by (subst wait_cluster_loop.simps) (simp add: cluster_attempt_eq el second_def)
  have c1: "wait_cluster_loop slow_start 300000000 ?s1
      = (True, after_exec slow_start (cluster_probe_argv ?s2) ?s2)"
    using up
    by (subst wait_cluster_loop.simps)
       (simp add: cluster_attempt_eq el second_def c2 cluster_failed_pass_def [symmetric])
  have c0: "wait_cluster_loop slow_start 300000000 (initial 0)
      = (True, after_exec slow_start (cluster_probe_argv ?s2) ?s2)"
    using up
    by (subst wait_cluster_loop.simps)
       (simp add: cluster_attempt_eq el second_def c1 cluster_failed_pass_def [symmetric])
  have c: "wait_cluster_available slow_start 5 (initial 0)
      = (Return (), after_exec slow_start (cluster_probe_argv ?s2) ?s2)"
    by (simp add: wait_cluster_available_def second_def c0)
  have down: "\<not> tiller_up no_helm u" if "helm_bin u = PStr ''helm''" for u
    using that by (simp add: tiller_up_def no_helm_def calm_def tiller_probe_argv_def)
  have step: "wait_tiller_loop no_helm d u = wait_tiller_loop no_helm d (tiller_failed_pass no_helm u)"
    if "now u < d" "helm_bin u = PStr ''helm''" for d u
    using that down [of u]
    by (subst wait_tiller_loop.simps)
       (simp add: tiller_attempt_eq tiller_failed_pass_def [symmetric])
  have stop: "wait_tiller_loop no_helm d u = (False, u)" if "\<not> now u < d" for d u
    using that by (subst wait_tiller_loop.simps) simp
  let ?t4 = "tiller_failed_pass no_helm (tiller_failed_pass no_helm
               (tiller_failed_pass no_helm (tiller_failed_pass no_helm (initial 0))))"
  have t0: "wait_tiller_loop no_helm 60000000 (initial 0) = (False, ?t4)"
    by (simp add: step stop el second_def)
  have t: "wait_tiller_available no_helm 1 (initial 0)
      = (SysExit 1, ?t4\<lparr>trace := trace ?t4 @ [Stderr ''Helm tiller could not be contacted.'']\<rparr>)"
    by (simp add: wait_tiller_available_def second_def t0 seq_def and_then_def print_err_def
          emit_def sys_exit_def)
  from pollers_swallow_and_time_out [OF c surjective_pairing,
      where t = "initial 0" and tiller_timeout = 0]
    pollers_swallow_and_time_out [OF surjective_pairing t,
      where s = "initial 0" and cluster_timeout = 0]
    c t
  show ?thesis
    by (simp add: cluster_probe_argv_def tiller_probe_argv_def)
qed

subsection \<open>Cluster poller: bound on the attempts\<close>

text \<open>
  Claim C2. With a time-out of one minute the cluster poller starts at most two probes
  (each failed pass sleeps 30 seconds, and the clock does not run backwards). If no probe
  ever succeeds, it starts at least one, reports that the server could not be contacted on
  the error stream, and exits with status 1.
\<close>

theorem cluster_poller_attempt_bound:
  assumes "wait_cluster_available w 1 s = (r, s')"
  shows "length (execs_of (drop (length (trace s)) (trace s'))) \<le> 2
       \<and> ((\<forall>t. kubectl_bin t = kubectl_bin s \<longrightarrow> \<not> cluster_up w t) \<longrightarrow>
            r = SysExit 1
            \<and> 1 \<le> length (execs_of (drop (length (trace s)) (trace s')))
            \<and> stderr_of (drop (length (trace s)) (trace s'))
                = [''Kubernetes server could not be contacted.''])"
proof -
  let ?msg = "''Cluster unavailable. Waiting 30 seconds before retrying.''"
  let ?d = "now s + 60 * int second"
  let ?s1 = "after_pause w ?msg 30 (after_exec w (cluster_probe_argv s) s)"
  let ?s2 = "after_pause w ?msg 30 (after_exec w (cluster_probe_argv ?s1) ?s1)"
  have k1: "kubectl_bin ?s1 = kubectl_bin s" by simp
  have k2: "kubectl_bin ?s2 = kubectl_bin s" by simp
  have live: "now s < ?d" by (simp add: second_def)
  have late: "\<not> now ?s2 < ?d" by (simp add: second_def)
  have l2: "wait_cluster_loop w ?d ?s2 = (False, ?s2)"
    using late by (subst wait_cluster_loop.simps) simp
  have l1: "wait_cluster_loop w ?d ?s1 =
      (if now ?s1 < ?d then
         if cluster_up w ?s1 then (True, after_exec w (cluster_probe_argv ?s1) ?s1)
         else (False, ?s2)
       else (False, ?s1))"
    by (subst wait_cluster_loop.simps) (simp add: cluster_attempt_eq l2)
  have l0: "wait_cluster_loop w ?d s =
      (if cluster_up w s then (True, after_exec w (cluster_probe_argv s) s)
       else wait_cluster_loop w ?d ?s1)"
    using live by (subst wait_cluster_loop.simps) (simp add: cluster_attempt_eq)
  show ?thesis
    using assms k1
    by (auto simp: wait_cluster_available_def l0 l1 Let_def seq_def and_then_def print_err_def
          emit_def sys_exit_def split: if_splits)
qed

theorem cluster_poller_attempt_bound_witness:
  "(\<forall>t. \<not> cluster_up never_up t)
   \<and> fst (wait_cluster_available never_up 1 (initial 0)) = SysExit 1
   \<and> length (execs_of (trace (snd (wait_cluster_available never_up 1 (initial 0))))) \<le> 2
   \<and> stderr_of (trace (snd (wait_cluster_available never_up 1 (initial 0))))
       = [''Kubernetes server could not be contacted.'']"
proof -
  have never: "\<not> cluster_up never_up t" for t
    by (simp add: cluster_up_def never_up_def calm_def)
  from cluster_poller_attempt_bound [OF surjective_pairing, where w = never_up and s = "initial 0"]
    never
  show ?thesis by simp
qed

subsection \<open>Tools are probed before anything is changed\<close>

text \<open>
  Claim C5. Take a configuration that loads and validates, and let the probe of the
  \<open>i\<close>-th tool (terraform, kops, helm, kubectl, each at its resolved binary) be the first
  that fails. Then the process ends with an \<open>IOError\<close> whose message starts with the name
  of that tool, with exit status 1, and the probes up to that one are all that was ever
  run: no apply, create or install, and no template was rendered.
\<close>

theorem probe_failure_aborts_before_mutation:
  assumes "load_values w values = Inr config"
    and "fst (validate_config w config (initial t0)) = Return ()"
    and "getitem config ''paths'' = Inr (PDict ps)"
    and "i < 4"
    and "\<forall>j<i. \<exists>out. subprocess w j (snd (tool_probes ps ! j)) = Returned 0 out"
    and "probe_failed (subprocess w i (snd (tool_probes ps ! i)))"
    and "ship w values cmd (initial t0) = (r, s')"
  shows "(\<exists>detail. r = Raise (IOError (fst (tool_probes ps ! i) @ '' executable not valid: ''
                                      @ detail)))
       \<and> trace s' = map Exec (take (Suc i) (map snd (tool_probes ps)))
       \<and> exit_status r = 1"
proof -
  have v: "validate_config w config (initial t0) = (Return (), initial t0)"
    using assms(2) preservesD [OF validate_config_unchanged, of w config "initial t0"]
    by (cases "validate_config w config (initial t0)") (simp add: unchanged_def)
  have cli: "cli w values (initial t0)
      = and_then (set_binary_paths w config) (\<lambda>_. return config) (initial t0)"
    using assms(1) v
    by (simp add: cli_def get_config_def try_except2_def try_except_def return_def seq_def
          and_then_def)
  note rb = resolve_binaries [OF assms(3)]
  have sbp: "set_binary_paths w config s =
      seq (\<lambda>s. (Return (), s\<lparr>terraform_bin := resolved ps ''terraform'' (terraform_bin s)\<rparr>))
     (seq (and_then (gets terraform_bin) (\<lambda>bin.
            probe_tool w [bin, PStr ''--version''] ''terraform executable not valid: ''))
     (seq (\<lambda>s. (Return (), s\<lparr>kops_bin := resolved ps ''kops'' (kops_bin s)\<rparr>))
     (seq (and_then (gets kops_bin) (\<lambda>bin.
            probe_tool w [bin, PStr ''version''] ''kops executable not valid: ''))
     (seq (\<lambda>s. (Return (), s\<lparr>helm_bin := resolved ps ''helm'' (helm_bin s)\<rparr>))
     (seq (and_then (gets helm_bin) (\<lambda>bin.
            probe_tool w [bin, PStr ''version'', PStr ''--client'']
              ''helm executable not valid: ''))
     (seq (\<lambda>s. (Return (), s\<lparr>kubectl_bin := resolved ps ''kubectl'' (kubectl_bin s)\<rparr>))
          (and_then (gets kubectl_bin) (\<lambda>bin.
            probe_tool w [bin, PStr ''version'', PStr ''--client'']
              ''kubectl executable not valid: '')))))))) s" for s
    unfolding set_binary_paths_def rb ..
  from assms(4) consider "i = 0" | "i = 1" | "i = 2" | "i = 3" by linarith
  then show ?thesis
  proof cases
    case 1
    with assms(6) assms(7) show ?thesis
      by (auto simp: ship_def cli sbp seq_def and_then_def gets_def probe_tool_eq
            tool_probes_def after_exec_def tick_def split: proc.splits if_splits)
  next
    case 2
    with assms(5) obtain o0 where "subprocess w 0 (snd (tool_probes ps ! 0)) = Returned 0 o0"
      by auto
    with 2 assms(6) assms(7) show ?thesis
      by (auto simp: ship_def cli sbp seq_def and_then_def gets_def probe_tool_eq
            tool_probes_def after_exec_def tick_def split: proc.splits if_splits)
  next
    case 3
    with assms(5) obtain o0 o1 where
      "subprocess w 0 (snd (tool_probes ps ! 0)) = Returned 0 o0"
      "subprocess w 1 (snd (tool_probes ps ! 1)) = Returned 0 o1"
      by (metis One_nat_def Suc_1 lessI less_SucI)
    with 3 assms(6) assms(7) show ?thesis
      by (auto simp: ship_def cli sbp seq_def and_then_def gets_def probe_tool_eq
            tool_probes_def after_exec_def tick_def numeral_2_eq_2
            split: proc.splits if_splits)
  next
    case 4
    with assms(5) obtain o0 o1 o2 where
      "subprocess w 0 (snd (tool_probes ps ! 0)) = Returned 0 o0"
      "subprocess w 1 (snd (tool_probes ps ! 1)) = Returned 0 o1"
      "subprocess w 2 (snd (tool_probes ps ! 2)) = Returned 0 o2"
      by (metis One_nat_def Suc_1 lessI less_SucI numeral_3_eq_3)
    with 4 assms(6) assms(7) show ?thesis
      by (auto simp: ship_def cli sbp seq_def and_then_def gets_def probe_tool_eq
            tool_probes_def after_exec_def tick_def numeral_2_eq_2 numeral_3_eq_3
            split: proc.splits if_splits)
  qed
qed

theorem probe_failure_aborts_before_mutation_witness:
  "(\<exists>detail. fst (ship no_helm ''values.yaml'' (Create 5 5) (initial 0))
               = Raise (IOError (''helm executable not valid: '' @ detail)))
   \<and> trace (snd (ship no_helm ''values.yaml'' (Create 5 5) (initial 0)))
       = [Exec [PStr ''terraform'', PStr ''--version''], Exec [PStr ''kops'', PStr ''version''],
          Exec [PStr ''helm'', PStr ''version'', PStr ''--client'']]"
proof -
  let ?ps = "[(''sshPublicKeyPath'', PStr ''id_rsa.pub''),
          (''terraformTemplatePath'', PStr ''net.tf.j2''),
          (''kopsTemplatePath'', PStr ''kops.j2''),
          (''outputDir'', PStr ''out''),
          (''tillerPermissions'', PStr ''tiller.yaml'')]"
  have h1: "load_values no_helm ''values.yaml'' = Inr example_config"
    by (simp add: no_helm_def calm_def)
  have h2: "fst (validate_config no_helm example_config (initial 0)) = Return ()"
    by (simp add: validate_config_def validate_file_exists_def item2_def in_item_def
          example_config_def no_helm_def calm_def try_except_def seq_def and_then_def
          return_def lift_def)
  have h3: "getitem example_config ''paths'' = Inr (PDict ?ps)"
    by (simp add: example_config_def)
  have h4: "(2::nat) < 4" by simp
  have h5: "\<forall>j<2. \<exists>out. subprocess no_helm j (snd (tool_probes ?ps ! j)) = Returned 0 out"
    by (simp add: less_2_cases_iff tool_probes_def resolved_def no_helm_def calm_def)
  have h6: "probe_failed (subprocess no_helm 2 (snd (tool_probes ?ps ! 2)))"
    by (simp add: tool_probes_def resolved_def no_helm_def calm_def)
  from probe_failure_aborts_before_mutation [OF h1 h2 h3 h4 h5 h6 surjective_pairing]
  show ?thesis
    by (simp add: tool_probes_def resolved_def)
qed

subsection \<open>Validation of overridden binary paths\<close>

text \<open>
  Claim C4 asks that validation fail when an overridden binary path does not exist, for
  each of the four tools. \<open>validate_config\<close> looks at the overrides of terraform and kops
  only: with nothing at the overridden path, validation fails for these two and passes for
  helm and kubectl.
\<close>

theorem validate_config_skips_helm_and_kubectl:
  "isfile (missing_file ''/opt/bin/helm'') (PStr ''/opt/bin/helm'') = Inr False
   \<and> fst (validate_config (missing_file ''/opt/bin/helm'')
             (override_config ''helm'' ''/opt/bin/helm'') (initial 0)) = Return ()
   \<and> fst (validate_config (missing_file ''/opt/bin/kubectl'')
             (override_config ''kubectl'' ''/opt/bin/kubectl'') (initial 0)) = Return ()
   \<and> fst (validate_config (missing_file ''/opt/bin/terraform'')
             (override_config ''terraform'' ''/opt/bin/terraform'') (initial 0))
       = Raise (IOError ''terraform binary not found at /opt/bin/terraform'')
   \<and> fst (validate_config (missing_file ''/opt/bin/kops'')
             (override_config ''kops'' ''/opt/bin/kops'') (initial 0))
       = Raise (IOError ''kops binary not found at /opt/bin/kops'')"
  by (simp add: validate_config_def validate_file_exists_def item2_def in_item_def
        override_config_def missing_file_def calm_def try_except_def seq_def and_then_def
        return_def raise_def lift_def)

subsection \<open>Update: the confirmation gate\<close>

text \<open>
  Claim C8 says that a declined \<^verbatim>\<open>update\<close> aborts before any external tool is invoked.
  The group callback runs before every command, and it probes the four tools; by the time
  the question is asked, four child processes have run.
\<close>

theorem update_declined_counterexample:
  "fst (ship declines ''values.yaml'' (Update False) (initial 0)) = Raise Abort
   \<and> execs_of (trace (snd (ship declines ''values.yaml'' (Update False) (initial 0))))
       = [[PStr ''terraform'', PStr ''--version''], [PStr ''kops'', PStr ''version''],
          [PStr ''helm'', PStr ''version'', PStr ''--client''],
          [PStr ''kubectl'', PStr ''version'', PStr ''--client'']]"
  by (simp add: ship_def cli_def get_config_def validate_config_def validate_file_exists_def
        set_binary_paths_def probe_tool_eq item2_def in_item_def update_def
        bind_cluster_config_def cluster_config_item_def click_confirm_def
        declines_def calm_def example_config_def try_except2_def try_except_def seq_def
        and_then_def return_def raise_def lift_def gets_def tick_def Let_def after_exec_def)

text \<open>
  Claim C8, amended. When \<^verbatim>\<open>update\<close> is run without \<^verbatim>\<open>--yes\<close> and the user declines, the
  process aborts with exit status 1; after the group callback the only event is the
  question itself, and all the group callback did was to probe tool versions (and, had it
  failed, to write to the error stream): no template is rendered and no tool is invoked
  other than for its version.
\<close>

theorem update_declined_after_probes:
  assumes "cli w values s = (Return config, s1)"
    and "getitem config ''clusterConfig'' = Inr cc"
    and "getitem cc ''FullyQualifiedName'' = Inr name"
    and "getitem config ''paths'' = Inr paths"
    and "getitem paths ''outputDir'' = Inr out"
    and "question = ''Are you sure you want to update '' @ fmt w name @ ''?''"
    and "confirm_answer w (steps s1) question = Some False"
    and "ship w values (Update False) s = (r, s')"
  shows "r = Raise Abort \<and> exit_status r = 1
       \<and> trace s' = trace s1 @ [Prompt question]
       \<and> (\<exists>evs. trace s1 = trace s @ evs \<and> list_all startup_event evs)"
proof -
  have "adds_only startup_event s s1"
    using cli_adds assms(1) by (rule preservesD)
  moreover have "update w config False s1
      = (Raise Abort, (tick s1 0)\<lparr>cluster_config := cc, trace := trace s1 @ [Prompt question]\<rparr>)"
    using assms(2-7)
    by (simp add: update_def bind_cluster_config_def cluster_config_item_def seq_def
          and_then_def return_def lift_def gets_def click_confirm_def tick_def Let_def)
  ultimately show ?thesis
    using assms(1,8) by (auto simp: ship_def and_then_def adds_only_def tick_def)
qed

theorem update_declined_after_probes_witness:
  "fst (cli declines ''values.yaml'' (initial 0)) = Return example_config
   \<and> fst (ship declines ''values.yaml'' (Update False) (initial 0)) = Raise Abort
   \<and> trace (snd (ship declines ''values.yaml'' (Update False) (initial 0)))
       = trace (snd (cli declines ''values.yaml'' (initial 0)))
         @ [Prompt ''Are you sure you want to update dev.k8s?'']"
proof -
  have ret: "fst (cli declines ''values.yaml'' (initial 0)) = Return example_config"
    by (simp add: cli_def get_config_def validate_config_def validate_file_exists_def
        set_binary_paths_def probe_tool_eq item2_def in_item_def declines_def calm_def
        example_config_def try_except2_def try_except_def seq_def and_then_def return_def
        raise_def lift_def gets_def)
  then have h1: "cli declines ''values.yaml'' (initial 0)
      = (Return example_config, snd (cli declines ''values.yaml'' (initial 0)))"
    by (simp add: prod_eq_iff)
  have h2: "getitem example_config ''clusterConfig'' = Inr (PDict example_cluster_config)"
    by (simp add: example_config_def example_cluster_config_def)
  have h3: "getitem (PDict example_cluster_config) ''FullyQualifiedName'' = Inr (PStr ''dev.k8s'')"
    by (simp add: example_cluster_config_def)
  have h4: "getitem example_config ''paths'' = Inr (PDict
         [(''sshPublicKeyPath'', PStr ''id_rsa.pub''),
          (''terraformTemplatePath'', PStr ''net.tf.j2''),
          (''kopsTemplatePath'', PStr ''kops.j2''),
          (''outputDir'', PStr ''out''),
          (''tillerPermissions'', PStr ''tiller.yaml'')])"
    by (simp add: example_config_def)
  have h5: "getitem (PDict
         [(''sshPublicKeyPath'', PStr ''id_rsa.pub''),
          (''terraformTemplatePath'', PStr ''net.tf.j2''),
          (''kopsTemplatePath'', PStr ''kops.j2''),
          (''outputDir'', PStr ''out''),
          (''tillerPermissions'', PStr ''tiller.yaml'')]) ''outputDir'' = Inr (PStr ''out'')"
    by simp
  have h6: "''Are you sure you want to update dev.k8s?''
      = ''Are you sure you want to update '' @ fmt declines (PStr ''dev.k8s'') @ ''?''"
    by simp
  have h7: "confirm_answer declines (steps (snd (cli declines ''values.yaml'' (initial 0))))
      ''Are you sure you want to update dev.k8s?'' = Some False"
    by (simp add: declines_def)
  from update_declined_after_probes [OF h1 h2 h3 h4 h5 h6 h7 surjective_pairing] ret
  show ?thesis by simp
qed

subsection \<open>Chart installation: order and abort\<close>

text \<open>
  Claim C9. Once the tiller is set up, the chart installer driver runs one
  \<^verbatim>\<open>helm repo add\<close> for every configured repository, in the order of the configuration,
  and then one \<^verbatim>\<open>helm install\<close> for every configured chart, in the order of the
  configuration. When all of them succeed it returns, and these commands are all it ran. When
  the command at position \<open>i\<close> is the first that fails, the failure leaves the driver as an
  exception, the commands before it and the failing one are all that ran: no later
  repository is added, no later chart is installed, and nothing is run to undo the
  installations already made.
\<close>

theorem chart_install_order_and_abort:
  assumes "init_tiller w config timeout s0 = (Return (), s)"
    and "configured config ''chartRepos'' repos"
    and "configured config ''charts'' charts"
    and "list_all wf_repo repos"
    and "list_all wf_chart charts"
    and "cmds = map (repo_cmd (helm_bin s)) repos @ map (chart_cmd (helm_bin s)) charts"
    and "install_components w config timeout s0 = (r, s')"
  shows "((\<forall>j<length cmds. succeeded (subprocess w (steps s + j) (cmds ! j)))
            \<longrightarrow> r = Return () \<and> s' = fold (after_exec w) cmds s
                \<and> trace s' = trace s @ map Exec cmds)
       \<and> (\<forall>i<length cmds.
             (\<forall>j<i. succeeded (subprocess w (steps s + j) (cmds ! j)))
             \<and> \<not> succeeded (subprocess w (steps s + i) (cmds ! i))
            \<longrightarrow> r = Raise (call_error (cmds ! i) (subprocess w (steps s + i) (cmds ! i)))
                \<and> s' = fold (after_exec w) (take (Suc i) cmds) s
                \<and> trace s' = trace s @ map Exec (take (Suc i) cmds))"
proof -
  let ?body = "case_sum (add_repo w) (install_configured_chart w)"
  let ?c = "\<lambda>bin. case_sum (repo_cmd bin) (chart_cmd bin)"
  let ?xs = "map Inl repos @ map Inr charts"
  have cmds: "cmds = map (?c (helm_bin s)) ?xs"
    using assms(6) by simp
  have len: "length ?xs = length cmds"
    using cmds by simp
  have nth: "?c (helm_bin s) (?xs ! j) = cmds ! j" if "j < length cmds" for j
    using that len unfolding cmds by (metis nth_map)
  have body: "?body x u = check_call w (?c (helm_bin u) x) u" if "x \<in> set ?xs" for x u
    using that assms(4,5)
    by (auto simp: list_all_iff add_repo_wf install_configured_chart_wf)
  have run: "(r, s') = for_each ?body ?xs s"
    using assms(1,7) install_loops [OF assms(2,3), of w]
    by (simp add: install_components_def seq_Return)
  have ok: "r = Return () \<and> s' = fold (after_exec w) cmds s \<and> trace s' = trace s @ map Exec cmds"
    if "\<forall>j<length cmds. succeeded (subprocess w (steps s + j) (cmds ! j))"
  proof -
    have "\<forall>j<length ?xs. succeeded (subprocess w (steps s + j) (?c (helm_bin s) (?xs ! j)))"
      using that nth len by metis
    from for_each_calls_succeed [of ?xs ?body w ?c s, OF body this] run
    show ?thesis by (simp add: cmds)
  qed
  have bad: "r = Raise (call_error (cmds ! i) (subprocess w (steps s + i) (cmds ! i)))
             \<and> s' = fold (after_exec w) (take (Suc i) cmds) s
             \<and> trace s' = trace s @ map Exec (take (Suc i) cmds)"
    if "i < length cmds" "\<forall>j<i. succeeded (subprocess w (steps s + j) (cmds ! j))"
      "\<not> succeeded (subprocess w (steps s + i) (cmds ! i))" for i
  proof -
    have i: "i < length ?xs" using that(1) len by simp
    have before: "\<forall>j<i. succeeded (subprocess w (steps s + j) (?c (helm_bin s) (?xs ! j)))"
      using that(1,2) nth by (metis less_trans)
    have at: "\<not> succeeded (subprocess w (steps s + i) (?c (helm_bin s) (?xs ! i)))"
      using that(1,3) nth by metis
    from for_each_calls_fail [of ?xs ?body w ?c i s, OF body i before at] run
    have "r = Raise (call_error (?c (helm_bin s) (?xs ! i))
                (subprocess w (steps s + i) (?c (helm_bin s) (?xs ! i))))"
      and "s' = fold (after_exec w) (map (?c (helm_bin s)) (take (Suc i) ?xs)) s"
      by simp_all
    then show ?thesis
      using nth [OF that(1)] by (simp add: cmds take_map)
  qed
  from ok bad show ?thesis by blast
qed

theorem chart_install_order_and_abort_witness:
  "fst (install_components db_install_fails charts_config 5 (initial 0))
     = Raise (CalledProcessError
         [PStr ''helm'', PStr ''install'', PStr ''--name'', PStr ''db'',
          PStr ''stable/postgresql'', PStr ''--namespace'', PStr ''data''] 1)
   \<and> trace (snd (install_components db_install_fails charts_config 5 (initial 0)))
     = [Exec [PStr ''kubectl'', PStr ''apply'', PStr ''-f'', PStr ''tiller.yaml''],
        Exec [PStr ''helm'', PStr ''init'', PStr ''--service-account'', PStr ''tiller''],
        Exec [PStr ''helm'', PStr ''version'', PStr ''--server''],
        Exec [PStr ''helm'', PStr ''repo'', PStr ''add'', PStr ''stable'',
              PStr ''https://charts.example/stable''],
        Exec [PStr ''helm'', PStr ''repo'', PStr ''add'', PStr ''incubator'',
              PStr ''https://charts.example/incubator''],
        Exec [PStr ''helm'', PStr ''install'', PStr ''--name'', PStr ''ingress'',
              PStr ''stable/nginx-ingress'', PStr ''--namespace'', PStr ''kube-system'',
              PStr ''--set'', PStr ''rbac.create=true''],
        Exec [PStr ''helm'', PStr ''install'', PStr ''--name'', PStr ''db'',
              PStr ''stable/postgresql'', PStr ''--namespace'', PStr ''data'']]
   \<and> fst (install_components calm charts_config 5 (initial 0)) = Return ()
   \<and> trace (snd (install_components calm charts_config 5 (initial 0)))
     = [Exec [PStr ''kubectl'', PStr ''apply'', PStr ''-f'', PStr ''tiller.yaml''],
        Exec [PStr ''helm'', PStr ''init'', PStr ''--service-account'', PStr ''tiller''],
        Exec [PStr ''helm'', PStr ''version'', PStr ''--server''],
        Exec [PStr ''helm'', PStr ''repo'', PStr ''add'', PStr ''stable'',
              PStr ''https://charts.example/stable''],
        Exec [PStr ''helm'', PStr ''repo'', PStr ''add'', PStr ''incubator'',
              PStr ''https://charts.example/incubator''],
        Exec [PStr ''helm'', PStr ''install'', PStr ''--name'', PStr ''ingress'',
              PStr ''stable/nginx-ingress'', PStr ''--namespace'', PStr ''kube-system'',
              PStr ''--set'', PStr ''rbac.create=true''],
        Exec [PStr ''helm'', PStr ''install'', PStr ''--name'', PStr ''db'',
              PStr ''stable/postgresql'', PStr ''--namespace'', PStr ''data''],
        Exec [PStr ''helm'', PStr ''install'', PStr ''--name'', PStr ''monitor'',
              PStr ''stable/prometheus'', PStr ''--namespace'', PStr ''monitoring'']]"
proof -
  let ?repos = "[PDict [(''name'', PStr ''stable''), (''url'', PStr ''https://charts.example/stable'')],
          PDict [(''name'', PStr ''incubator''),
                 (''url'', PStr ''https://charts.example/incubator'')]]"
  let ?charts = "[PDict [(''name'', PStr ''stable/nginx-ingress''), (''release'', PStr ''ingress''),
                 (''namespace'', PStr ''kube-system''),
                 (''overrides'', PStr ''rbac.create=true'')],
          PDict [(''name'', PStr ''stable/postgresql''), (''release'', PStr ''db''),
                 (''namespace'', PStr ''data'')],
          PDict [(''name'', PStr ''stable/prometheus''), (''release'', PStr ''monitor''),
                 (''namespace'', PStr ''monitoring'')]]"
  let ?apply = "[PStr ''kubectl'', PStr ''apply'', PStr ''-f'', PStr ''tiller.yaml'']"
  let ?init = "[PStr ''helm'', PStr ''init'', PStr ''--service-account'', PStr ''tiller'']"
  let ?probe = "[PStr ''helm'', PStr ''version'', PStr ''--server'']"
  define s_of where "s_of w = after_exec w ?probe (after_exec w ?init (after_exec w ?apply (initial 0)))"
    for w :: world
  have cr: "configured charts_config ''chartRepos'' ?repos"
    and cc: "configured charts_config ''charts'' ?charts"
    by (simp_all add: configured_def charts_config_def)
  have wr: "list_all wf_repo ?repos" and wc: "list_all wf_chart ?charts"
    by (simp_all add: wf_repo_def wf_chart_def)
  have paths: "getitem charts_config ''paths'' = Inr (PDict
         [(''sshPublicKeyPath'', PStr ''id_rsa.pub''),
          (''terraformTemplatePath'', PStr ''net.tf.j2''),
          (''kopsTemplatePath'', PStr ''kops.j2''),
          (''outputDir'', PStr ''out''),
          (''tillerPermissions'', PStr ''tiller.yaml'')])"
    by (simp add: charts_config_def)
  have sub: "subprocess calm n argv = Returned 0 ''ok''"
    "subprocess db_install_fails n argv
       = (if take 4 argv = [PStr ''helm'', PStr ''install'', PStr ''--name'', PStr ''db'']
          then Returned 1 [] else Returned 0 ''ok'')" for n argv
    by (simp_all add: db_install_fails_def calm_def)
  have init_d: "init_tiller db_install_fails charts_config 5 (initial 0)
      = (Return (), s_of db_install_fails)"
    by (intro init_tiller_up [OF paths, THEN trans])
       (auto simp: s_of_def tiller_manifest_argv_def tiller_init_argv_def tiller_probe_argv_def
          tiller_up_def sub)
  have init_c: "init_tiller calm charts_config 5 (initial 0) = (Return (), s_of calm)"
    by (intro init_tiller_up [OF paths, THEN trans])
       (auto simp: s_of_def tiller_manifest_argv_def tiller_init_argv_def tiller_probe_argv_def
          tiller_up_def sub)
  have fields: "helm_bin (s_of w) = PStr ''helm''" "steps (s_of w) = 3"
    "trace (s_of w) = [Exec ?apply, Exec ?init, Exec ?probe]" for w
    by (simp_all add: s_of_def)
  note inst_d = chart_install_order_and_abort [OF init_d cr cc wr wc refl surjective_pairing]
  note inst_c = chart_install_order_and_abort [OF init_c cr cc wr wc refl surjective_pairing]
  have cmds: "map (repo_cmd (PStr ''helm'')) ?repos @ map (chart_cmd (PStr ''helm'')) ?charts
      = [[PStr ''helm'', PStr ''repo'', PStr ''add'', PStr ''stable'',
              PStr ''https://charts.example/stable''],
        [PStr ''helm'', PStr ''repo'', PStr ''add'', PStr ''incubator'',
              PStr ''https://charts.example/incubator''],
        [PStr ''helm'', PStr ''install'', PStr ''--name'', PStr ''ingress'',
              PStr ''stable/nginx-ingress'', PStr ''--namespace'', PStr ''kube-system'',
              PStr ''--set'', PStr ''rbac.create=true''],
        [PStr ''helm'', PStr ''install'', PStr ''--name'', PStr ''db'',
              PStr ''stable/postgresql'', PStr ''--namespace'', PStr ''data''],
        [PStr ''helm'', PStr ''install'', PStr ''--name'', PStr ''monitor'',
              PStr ''stable/prometheus'', PStr ''--namespace'', PStr ''monitoring'']]"
    by (simp add: repo_cmd_def chart_cmd_def item_or_none_def)
  have three: "j < 3 \<longleftrightarrow> j = 0 \<or> j = 1 \<or> j = 2" for j :: nat
    by auto
  from inst_d [THEN conjunct2, rule_format, of 3]
  have a: "fst (install_components db_install_fails charts_config 5 (initial 0))
             = Raise (CalledProcessError
                 [PStr ''helm'', PStr ''install'', PStr ''--name'', PStr ''db'',
                  PStr ''stable/postgresql'', PStr ''--namespace'', PStr ''data''] 1)
      \<and> trace (snd (install_components db_install_fails charts_config 5 (initial 0)))
          = [Exec ?apply, Exec ?init, Exec ?probe] @ map Exec
               (take 4 (map (repo_cmd (PStr ''helm'')) ?repos
                        @ map (chart_cmd (PStr ''helm'')) ?charts))"
    by (simp add: fields repo_cmd_def chart_cmd_def item_or_none_def sub three)
  from inst_c [THEN conjunct1, rule_format]
  have b: "fst (install_components calm charts_config 5 (initial 0)) = Return ()
      \<and> trace (snd (install_components calm charts_config 5 (initial 0)))
          = [Exec ?apply, Exec ?init, Exec ?probe] @ map Exec
               (map (repo_cmd (PStr ''helm'')) ?repos
                        @ map (chart_cmd (PStr ''helm'')) ?charts)"
    by (simp add: fields repo_cmd_def chart_cmd_def item_or_none_def sub)
  from a b show ?thesis
    unfolding cmds by simp
qed

end
